theory Spec2Isabelle
  imports Complex_Main
begin

section \<open>Numbers and values of the source language\<close>

text \<open>
  The services compute on JavaScript numbers, which are doubles. A double is a real
  number, and the model computes on reals. The converter, the categories and the forecast
  are modelled with exact arithmetic. Where the rounding of double arithmetic can decide
  what the program does (the distances, the database's distance query, the reported
  pollutant values), the arithmetic of the runtime is a parameter of the model:
  \<open>js_math\<close> for Node, \<open>pg_math\<close> for PostgreSQL. A pollutant argument of \<open>convertToIndianAQI\<close>
  is a number, \<open>null\<close> or \<open>undefined\<close> (the field is missing from the provider's
  answer).
\<close>

datatype jsval = Undefined | Null | Num real

text \<open>
  A number that may be \<open>NaN\<close>, with the comparison \<open><\<close> of JavaScript: false as
  soon as one side is \<open>NaN\<close>.
\<close>

datatype js_number = NaN | Val real

definition js_less :: "js_number \<Rightarrow> js_number \<Rightarrow> bool" where
  "js_less x y = (case x of NaN \<Rightarrow> False | Val a \<Rightarrow> (case y of NaN \<Rightarrow> False | Val b \<Rightarrow> a < b))"

text \<open>
  The double arithmetic of the JavaScript runtime. \<open>js_fl x\<close> is the double an
  operation returns whose exact result is \<open>x\<close> (IEEE 754 rounds the exact result);
  \<open>js_sin\<close>, \<open>js_cos\<close>, \<open>js_sqrt\<close> (on numbers that are not negative) and
  \<open>js_atan2\<close> are \<open>Math.sin\<close>, \<open>Math.cos\<close>, \<open>Math.sqrt\<close> and \<open>Math.atan2\<close>
  on doubles, \<open>js_PI\<close> is \<open>Math.PI\<close>. A decimal literal of the source is written as
  it is; the exact result of the first operation on it is rounded by \<open>js_fl\<close>.
\<close>

record js_math =
  js_fl :: "real \<Rightarrow> real"
  js_sin :: "real \<Rightarrow> real"
  js_cos :: "real \<Rightarrow> real"
  js_sqrt :: "real \<Rightarrow> real"
  js_atan2 :: "real \<Rightarrow> real \<Rightarrow> real"
  js_PI :: real

text \<open>\<open>Math.round\<close>: the nearest integer, a tie going up.\<close>

definition Math_round :: "real \<Rightarrow> int" where
  "Math_round x = \<lfloor>x + 1 / 2\<rfloor>"

text \<open>\<open>Math.max(...xs, d)\<close>: the largest of the list's elements and \<open>d\<close>.\<close>

definition Math_max :: "real list \<Rightarrow> real \<Rightarrow> real" where
  "Math_max xs d = foldr max xs d"

section \<open>Breakpoint converter (services/realAqiService.js)\<close>

record breakpoint =
  cLow :: real
  cHigh :: real
  iLow :: real
  iHigh :: real

text \<open>
  \<open>calculateSubIndex\<close>: the first segment that holds the concentration interpolates;
  when the loop ends without a match the function returns 500.
\<close>

fun calculateSubIndex :: "real \<Rightarrow> breakpoint list \<Rightarrow> real" where
  "calculateSubIndex concentration [] = 500"
| "calculateSubIndex concentration (bp # breakpoints) =
     (if concentration \<ge> cLow bp \<and> concentration \<le> cHigh bp
      then ((iHigh bp - iLow bp) / (cHigh bp - cLow bp)) * (concentration - cLow bp) + iLow bp
      else calculateSubIndex concentration breakpoints)"

definition pm25_breakpoints :: "breakpoint list" where
  "pm25_breakpoints =
    [\<lparr>cLow = 0, cHigh = 30, iLow = 0, iHigh = 50\<rparr>,
     \<lparr>cLow = 30, cHigh = 60, iLow = 51, iHigh = 100\<rparr>,
     \<lparr>cLow = 60, cHigh = 90, iLow = 101, iHigh = 200\<rparr>,
     \<lparr>cLow = 90, cHigh = 120, iLow = 201, iHigh = 300\<rparr>,
     \<lparr>cLow = 120, cHigh = 250, iLow = 301, iHigh = 400\<rparr>,
     \<lparr>cLow = 250, cHigh = 500, iLow = 401, iHigh = 500\<rparr>]"

definition pm10_breakpoints :: "breakpoint list" where
  "pm10_breakpoints =
    [\<lparr>cLow = 0, cHigh = 50, iLow = 0, iHigh = 50\<rparr>,
     \<lparr>cLow = 50, cHigh = 100, iLow = 51, iHigh = 100\<rparr>,
     \<lparr>cLow = 100, cHigh = 250, iLow = 101, iHigh = 200\<rparr>,
     \<lparr>cLow = 250, cHigh = 350, iLow = 201, iHigh = 300\<rparr>,
     \<lparr>cLow = 350, cHigh = 430, iLow = 301, iHigh = 400\<rparr>,
     \<lparr>cLow = 430, cHigh = 500, iLow = 401, iHigh = 500\<rparr>]"

definition no2_breakpoints :: "breakpoint list" where
  "no2_breakpoints =
    [\<lparr>cLow = 0, cHigh = 40, iLow = 0, iHigh = 50\<rparr>,
     \<lparr>cLow = 40, cHigh = 80, iLow = 51, iHigh = 100\<rparr>,
     \<lparr>cLow = 80, cHigh = 180, iLow = 101, iHigh = 200\<rparr>,
     \<lparr>cLow = 180, cHigh = 280, iLow = 201, iHigh = 300\<rparr>,
     \<lparr>cLow = 280, cHigh = 400, iLow = 301, iHigh = 400\<rparr>,
     \<lparr>cLow = 400, cHigh = 500, iLow = 401, iHigh = 500\<rparr>]"

text \<open>
  One guarded \<open>push\<close> of \<open>convertToIndianAQI\<close>: the guard is \<open>!== undefined\<close>, so
  \<open>null\<close> passes it, and in the comparisons and the arithmetic of
  \<open>calculateSubIndex\<close> JavaScript converts \<open>null\<close> to the number 0.
\<close>

definition pushSubIndex :: "jsval \<Rightarrow> breakpoint list \<Rightarrow> real list \<Rightarrow> real list" where
  "pushSubIndex v breakpoints aqiValues =
     (case v of
        Undefined \<Rightarrow> aqiValues
      | Null \<Rightarrow> aqiValues @ [calculateSubIndex 0 breakpoints]
      | Num c \<Rightarrow> aqiValues @ [calculateSubIndex c breakpoints])"

text \<open>
  \<open>convertToIndianAQI(pm25, pm10, no2, so2, co, o3)\<close>: three guarded pushes (PM2.5,
  PM10, NO2), then \<open>Math.round(Math.max(...aqiValues, 1))\<close>. The body never reads
  \<open>so2\<close>, \<open>co\<close> and \<open>o3\<close>.
\<close>

definition convertToIndianAQI ::
  "jsval \<Rightarrow> jsval \<Rightarrow> jsval \<Rightarrow> jsval \<Rightarrow> jsval \<Rightarrow> jsval \<Rightarrow> int" where
  "convertToIndianAQI pm25 pm10 no2 so2 co o3 =
     (let aqiValues = [];
          aqiValues = pushSubIndex pm25 pm25_breakpoints aqiValues;
          aqiValues = pushSubIndex pm10 pm10_breakpoints aqiValues;
          aqiValues = pushSubIndex no2 no2_breakpoints aqiValues
      in Math_round (Math_max aqiValues 1))"

section \<open>Categories\<close>

text \<open>\<open>getAQICategory\<close> of both services: a chain of upper bounds.\<close>

definition getAQICategory :: "real \<Rightarrow> string" where
  "getAQICategory aqi =
     (if aqi \<le> 50 then ''Good''
      else if aqi \<le> 100 then ''Satisfactory''
      else if aqi \<le> 200 then ''Moderate''
      else if aqi \<le> 300 then ''Poor''
      else if aqi \<le> 400 then ''Very Poor''
      else ''Severe'')"

text \<open>\<open>AQI_CATEGORIES\<close> (utils/constants.js), in the order of \<open>Object.entries\<close>.\<close>

record aqi_category =
  cat_min :: real
  cat_max :: real
  cat_label :: string
  cat_color :: string

definition AQI_CATEGORIES :: "(string \<times> aqi_category) list" where
  "AQI_CATEGORIES =
    [(''GOOD'', \<lparr>cat_min = 0, cat_max = 50, cat_label = ''Good'', cat_color = ''#00E400''\<rparr>),
     (''SATISFACTORY'', \<lparr>cat_min = 51, cat_max = 100, cat_label = ''Satisfactory'', cat_color = ''#FFFF00''\<rparr>),
     (''MODERATE'', \<lparr>cat_min = 101, cat_max = 200, cat_label = ''Moderate'', cat_color = ''#FF7E00''\<rparr>),
     (''POOR'', \<lparr>cat_min = 201, cat_max = 300, cat_label = ''Poor'', cat_color = ''#FF0000''\<rparr>),
     (''VERY_POOR'', \<lparr>cat_min = 301, cat_max = 400, cat_label = ''Very Poor'', cat_color = ''#8F3F97''\<rparr>),
     (''SEVERE'', \<lparr>cat_min = 401, cat_max = 500, cat_label = ''Severe'', cat_color = ''#7E0023''\<rparr>)]"

record categorized =
  category :: string
  label :: string
  color :: string
  "value" :: real

text \<open>
  \<open>categorizeAQI\<close> (utils/helpers.js): the first entry whose closed range holds the
  value; after the loop, the SEVERE answer.
\<close>

fun categorizeAQI_loop :: "(string \<times> aqi_category) list \<Rightarrow> real \<Rightarrow> categorized" where
  "categorizeAQI_loop [] aqi =
     \<lparr>category = ''SEVERE'', label = ''Severe'', color = ''#7E0023'', value = aqi\<rparr>"
| "categorizeAQI_loop ((key, c) # entries) aqi =
     (if aqi \<ge> cat_min c \<and> aqi \<le> cat_max c
      then \<lparr>category = key, label = cat_label c, color = cat_color c, value = aqi\<rparr>
      else categorizeAQI_loop entries aqi)"

definition categorizeAQI :: "real \<Rightarrow> categorized" where
  "categorizeAQI aqi = categorizeAQI_loop AQI_CATEGORIES aqi"

section \<open>Well-formed breakpoint tables\<close>

text \<open>
  The property the three tables of the converter share: every segment has a positive
  width and a non-decreasing index range, each segment starts where the one before ends,
  index ranges do not go back, and no index exceeds 500.
\<close>

fun table_ok :: "breakpoint list \<Rightarrow> bool" where
  "table_ok [] = True"
| "table_ok [bp] = (cLow bp < cHigh bp \<and> iLow bp \<le> iHigh bp \<and> iHigh bp \<le> 500)"
| "table_ok (bp # bp' # bps) =
     (cLow bp < cHigh bp \<and> iLow bp \<le> iHigh bp \<and> cHigh bp = cLow bp' \<and> iHigh bp \<le> iLow bp'
      \<and> table_ok (bp' # bps))"

definition converter_tables :: "breakpoint list list" where
  "converter_tables = [pm25_breakpoints, pm10_breakpoints, no2_breakpoints]"

section \<open>The overall index, as the specification words it\<close>

text \<open>
  Following the specification's \<open>overallIndex\<close>: the sub-index of every pollutant
  that is present (has a number; \<open>null\<close> and a missing field both count as absent),
  the maximum of these, rounded to the nearest integer and raised to at least 1. The
  entries pair a pollutant's value with its breakpoint table.
\<close>

definition presentSubIndices :: "(jsval \<times> breakpoint list) list \<Rightarrow> real list" where
  "presentSubIndices entries =
     concat (map (\<lambda>(v, t). case v of Num c \<Rightarrow> [calculateSubIndex c t] | _ \<Rightarrow> []) entries)"

definition overallIndex :: "(jsval \<times> breakpoint list) list \<Rightarrow> int" where
  "overallIndex entries =
     (let subs = presentSubIndices entries
      in if subs = [] then 1 else max 1 (Math_round (Max (set subs))))"

section \<open>Reference cities and distance (services/realAqiService.js, services/aqiService.js)\<close>

text \<open>
  \<open>calculateDistance\<close>, operation by operation, each result rounded by the runtime.
  \<open>Math.sqrt\<close> of a negative number is \<open>NaN\<close>, and \<open>NaN\<close> passes through
  \<open>Math.atan2\<close> and the two products: the distance is \<open>NaN\<close> when the haversine term
  \<open>a\<close> is negative or \<open>1 - a\<close> is.
\<close>

definition calculateDistance :: "js_math \<Rightarrow> real \<Rightarrow> real \<Rightarrow> real \<Rightarrow> real \<Rightarrow> js_number" where
  "calculateDistance M lat1 lng1 lat2 lng2 =
     (let fl = js_fl M;
          R = 6371;
          dLat = fl (fl (fl (lat2 - lat1) * js_PI M) / 180);
          dLng = fl (fl (fl (lng2 - lng1) * js_PI M) / 180);
          a = fl (fl (js_sin M (fl (dLat / 2)) * js_sin M (fl (dLat / 2))) +
                  fl (fl (fl (js_cos M (fl (fl (lat1 * js_PI M) / 180))
                                * js_cos M (fl (fl (lat2 * js_PI M) / 180)))
                            * js_sin M (fl (dLng / 2)))
                        * js_sin M (fl (dLng / 2))))
      in if a < 0 \<or> fl (1 - a) < 0 then NaN
         else Val (fl (R * fl (2 * js_atan2 M (js_sqrt M a) (js_sqrt M (fl (1 - a)))))))"

text \<open>
  The arithmetic without rounding, with the real sine, cosine, square root and arc
  tangent: the reference the runtime approximates.
\<close>

definition Math_atan2 :: "real \<Rightarrow> real \<Rightarrow> real" where
  "Math_atan2 y x =
     (if x > 0 then arctan (y / x)
      else if x < 0 then (if y \<ge> 0 then arctan (y / x) + pi else arctan (y / x) - pi)
      else if y > 0 then pi / 2
      else if y < 0 then - pi / 2
      else 0)"

definition js_exact :: js_math where
  "js_exact =
     \<lparr>js_fl = (\<lambda>x. x), js_sin = sin, js_cos = cos, js_sqrt = sqrt, js_atan2 = Math_atan2, js_PI = pi\<rparr>"

text \<open>The haversine term \<open>a\<close> of \<open>calculateDistance\<close> in that arithmetic.\<close>

definition haversine_a :: "real \<Rightarrow> real \<Rightarrow> real \<Rightarrow> real \<Rightarrow> real" where
  "haversine_a lat1 lng1 lat2 lng2 =
     sin ((lat2 - lat1) * pi / 180 / 2) * sin ((lat2 - lat1) * pi / 180 / 2) +
     cos (lat1 * pi / 180) * cos (lat2 * pi / 180) *
     sin ((lng2 - lng1) * pi / 180 / 2) * sin ((lng2 - lng1) * pi / 180 / 2)"

record city =
  city_name :: string
  city_lat :: real
  city_lng :: real
  city_state :: string

record mock_city = city +
  baseAQI :: int

text \<open>
  The loop shared by \<open>getCityFromCoordinates\<close> and \<open>getCityMockData\<close>: it starts from
  \<open>cities[0]\<close> and its distance, and a city replaces the closest one so far only when
  \<open>distance < minDistance\<close> holds, which it never does once one of the two is \<open>NaN\<close>.
\<close>

fun closest_loop ::
  "js_math \<Rightarrow> real \<Rightarrow> real \<Rightarrow> 'a city_scheme list \<Rightarrow> 'a city_scheme \<Rightarrow> js_number
     \<Rightarrow> 'a city_scheme" where
  "closest_loop M lat lng [] closestCity minDistance = closestCity"
| "closest_loop M lat lng (c # cities) closestCity minDistance =
     (let distance = calculateDistance M lat lng (city_lat c) (city_lng c)
      in if js_less distance minDistance then closest_loop M lat lng cities c distance
         else closest_loop M lat lng cities closestCity minDistance)"

definition closest_city :: "js_math \<Rightarrow> real \<Rightarrow> real \<Rightarrow> 'a city_scheme list \<Rightarrow> 'a city_scheme" where
  "closest_city M lat lng cities =
     closest_loop M lat lng cities (cities ! 0)
       (calculateDistance M lat lng (city_lat (cities ! 0)) (city_lng (cities ! 0)))"

definition coordinate_cities :: "city list" where
  "coordinate_cities =
    [\<lparr>city_name = ''New Delhi'', city_lat = 28.6139, city_lng = 77.2090, city_state = ''Delhi''\<rparr>,
     \<lparr>city_name = ''Mumbai'', city_lat = 19.0760, city_lng = 72.8777, city_state = ''Maharashtra''\<rparr>,
     \<lparr>city_name = ''Bangalore'', city_lat = 12.9716, city_lng = 77.5946, city_state = ''Karnataka''\<rparr>,
     \<lparr>city_name = ''Chennai'', city_lat = 13.0827, city_lng = 80.2707, city_state = ''Tamil Nadu''\<rparr>,
     \<lparr>city_name = ''Kolkata'', city_lat = 22.5726, city_lng = 88.3639, city_state = ''West Bengal''\<rparr>,
     \<lparr>city_name = ''Hyderabad'', city_lat = 17.3850, city_lng = 78.4867, city_state = ''Telangana''\<rparr>,
     \<lparr>city_name = ''Pune'', city_lat = 18.5204, city_lng = 73.8567, city_state = ''Maharashtra''\<rparr>,
     \<lparr>city_name = ''Ahmedabad'', city_lat = 23.0225, city_lng = 72.5714, city_state = ''Gujarat''\<rparr>,
     \<lparr>city_name = ''Jaipur'', city_lat = 26.9124, city_lng = 75.7873, city_state = ''Rajasthan''\<rparr>,
     \<lparr>city_name = ''Surat'', city_lat = 21.1702, city_lng = 72.8311, city_state = ''Gujarat''\<rparr>]"

definition getCityFromCoordinates :: "js_math \<Rightarrow> real \<Rightarrow> real \<Rightarrow> city" where
  "getCityFromCoordinates M lat lng = closest_city M lat lng coordinate_cities"

definition mock_cities :: "mock_city list" where
  "mock_cities =
    [\<lparr>city_name = ''New Delhi'', city_lat = 28.6139, city_lng = 77.2090, city_state = ''Delhi'', baseAQI = 180\<rparr>,
     \<lparr>city_name = ''Mumbai'', city_lat = 19.0760, city_lng = 72.8777, city_state = ''Maharashtra'', baseAQI = 120\<rparr>,
     \<lparr>city_name = ''Bangalore'', city_lat = 12.9716, city_lng = 77.5946, city_state = ''Karnataka'', baseAQI = 100\<rparr>,
     \<lparr>city_name = ''Chennai'', city_lat = 13.0827, city_lng = 80.2707, city_state = ''Tamil Nadu'', baseAQI = 110\<rparr>,
     \<lparr>city_name = ''Kolkata'', city_lat = 22.5726, city_lng = 88.3639, city_state = ''West Bengal'', baseAQI = 150\<rparr>,
     \<lparr>city_name = ''Hyderabad'', city_lat = 17.3850, city_lng = 78.4867, city_state = ''Telangana'', baseAQI = 130\<rparr>,
     \<lparr>city_name = ''Pune'', city_lat = 18.5204, city_lng = 73.8567, city_state = ''Maharashtra'', baseAQI = 115\<rparr>,
     \<lparr>city_name = ''Ahmedabad'', city_lat = 23.0225, city_lng = 72.5714, city_state = ''Gujarat'', baseAQI = 125\<rparr>]"

definition getCityMockData :: "js_math \<Rightarrow> real \<Rightarrow> real \<Rightarrow> mock_city" where
  "getCityMockData M lat lng = closest_city M lat lng mock_cities"

section \<open>Readings\<close>

text \<open>
  A reading as the services return it. Times are milliseconds since the epoch. A
  pollutant value is a number or \<open>None\<close>, which stands for \<open>null\<close> and for the
  \<open>NaN\<close> that rounding a missing component gives.
\<close>

record location =
  loc_name :: string
  loc_latitude :: real
  loc_longitude :: real
  loc_state :: string
  loc_country :: "string option"
  stationType :: string

record aqi_info =
  aqi_value :: real
  aqi_category :: string
  lastUpdated :: int

record pollutants =
  r_pm25 :: "real option"
  r_pm10 :: "real option"
  r_no2 :: "real option"
  r_so2 :: "real option"
  r_co :: "real option"
  r_o3 :: "real option"
  r_nh3 :: "real option"

record weather =
  temperature :: real
  humidity :: real
  pressure :: real
  windSpeed :: real

record reading =
  rd_location :: location
  rd_aqi :: aqi_info
  rd_pollutants :: pollutants
  rd_weather :: "weather option"
  source :: string
  isRealData :: bool

section \<open>Synthetic readings\<close>

text \<open>
  \<open>getMockAQIData(lat, lng, isError)\<close> of RealAQIService. \<open>now\<close> is the clock, and
  \<open>rnd k\<close> the result of the \<open>k\<close>-th call of \<open>Math.random()\<close>, counted from 0, in
  the order the body makes them.
\<close>

text \<open>
  A synthetic pollutant value,
  \<open>Math.round((aqi * factor + Math.random() * spread) * k) / k\<close>, with every
  operation rounded by the runtime; \<open>Math.round\<close> itself is exact on a double.
\<close>

definition mock_pollutant :: "js_math \<Rightarrow> int \<Rightarrow> real \<Rightarrow> real \<Rightarrow> real \<Rightarrow> real \<Rightarrow> real option" where
  "mock_pollutant M aqi factor r spread k =
     (let fl = js_fl M
      in Some (fl (of_int (Math_round (fl (fl (fl (of_int aqi * factor) + fl (r * spread)) * k))) / k)))"

definition getMockAQIData ::
  "js_math \<Rightarrow> real \<Rightarrow> real \<Rightarrow> bool \<Rightarrow> int \<Rightarrow> (nat \<Rightarrow> real) \<Rightarrow> reading" where
  "getMockAQIData M lat lng isError now rnd =
     (let cityData = getCityMockData M lat lng;
          base = baseAQI cityData + \<lfloor>js_fl M (rnd 0 * 40)\<rfloor> - 20;
          aqi = max 1 (min 500 base)
      in \<lparr>rd_location =
            \<lparr>loc_name = city_name cityData, loc_latitude = lat, loc_longitude = lng,
             loc_state = city_state cityData, loc_country = None,
             stationType = (if isError then ''Mock-Fallback'' else ''Mock-Development'')\<rparr>,
          rd_aqi =
            \<lparr>aqi_value = of_int aqi, aqi_category = getAQICategory (of_int aqi), lastUpdated = now\<rparr>,
          rd_pollutants =
            \<lparr>r_pm25 = mock_pollutant M aqi 0.6 (rnd 1) 10 10,
             r_pm10 = mock_pollutant M aqi 1.2 (rnd 2) 15 10,
             r_no2 = mock_pollutant M aqi 0.4 (rnd 3) 8 10,
             r_so2 = mock_pollutant M aqi 0.2 (rnd 4) 5 10,
             r_co = mock_pollutant M aqi 0.01 (rnd 5) 0.5 100,
             r_o3 = mock_pollutant M aqi 0.3 (rnd 6) 6 10,
             r_nh3 = None\<rparr>,
          rd_weather = None,
          source = (if isError then ''Mock-Fallback'' else ''Mock-Development''),
          isRealData = False\<rparr>)"

text \<open>
  \<open>getMockAQIData\<close> of AQIService (services/aqiService.js): the same body with the tag
  \<open>'Mock-CPCB'\<close>. The service's \<open>getCityMockData\<close>, \<open>calculateDistance\<close> and
  \<open>getAQICategory\<close> are copies of those above.
\<close>

definition AQIService_getMockAQIData ::
  "js_math \<Rightarrow> real \<Rightarrow> real \<Rightarrow> bool \<Rightarrow> int \<Rightarrow> (nat \<Rightarrow> real) \<Rightarrow> reading" where
  "AQIService_getMockAQIData M lat lng isError now rnd =
     (let cityData = getCityMockData M lat lng;
          base = baseAQI cityData + \<lfloor>js_fl M (rnd 0 * 40)\<rfloor> - 20;
          aqi = max 1 (min 500 base)
      in \<lparr>rd_location =
            \<lparr>loc_name = city_name cityData, loc_latitude = lat, loc_longitude = lng,
             loc_state = city_state cityData, loc_country = None,
             stationType = (if isError then ''Mock-Fallback'' else ''Mock-CPCB'')\<rparr>,
          rd_aqi =
            \<lparr>aqi_value = of_int aqi, aqi_category = getAQICategory (of_int aqi), lastUpdated = now\<rparr>,
          rd_pollutants =
            \<lparr>r_pm25 = mock_pollutant M aqi 0.6 (rnd 1) 10 10,
             r_pm10 = mock_pollutant M aqi 1.2 (rnd 2) 15 10,
             r_no2 = mock_pollutant M aqi 0.4 (rnd 3) 8 10,
             r_so2 = mock_pollutant M aqi 0.2 (rnd 4) 5 10,
             r_co = mock_pollutant M aqi 0.01 (rnd 5) 0.5 100,
             r_o3 = mock_pollutant M aqi 0.3 (rnd 6) 6 10,
             r_nh3 = None\<rparr>,
          rd_weather = None,
          source = (if isError then ''Mock-Fallback'' else ''Mock-CPCB''),
          isRealData = False\<rparr>)"

section \<open>Provider adapters (services/realAqiService.js)\<close>

text \<open>
  What a request to a provider comes to: \<open>Failed\<close> when \<open>axios.get\<close> throws (no
  network, a timeout, a status outside 2xx) or the body cannot be read by the formatting
  code, \<open>Response\<close> with the body otherwise.
\<close>

datatype 'a http = Failed | Response 'a

record owm_components =
  c_pm2_5 :: jsval
  c_pm10 :: jsval
  c_no2 :: jsval
  c_so2 :: jsval
  c_co :: jsval
  c_o3 :: jsval
  c_nh3 :: jsval

record owm_pollution =
  components :: owm_components
  dt :: int

record iqair_pollution =
  aqius :: real
  ts :: int
  p2 :: "real option"
  p1 :: "real option"

record iqair_weather =
  tp :: real
  hu :: real
  pr :: real
  ws :: real

record iqair_data =
  iq_city :: string
  iq_state :: string
  iq_country :: string
  iq_pollution :: iqair_pollution
  iq_weather :: iqair_weather

record iqair_body =
  status :: string
  data :: "iqair_data option"

text \<open>
  The environment of one call: the answers the three provider endpoints would give.
  \<open>data.list\<close> of an OpenWeatherMap body may be missing (\<open>None\<close>).
\<close>

record world =
  owm_air_pollution :: "owm_pollution list option http"
  owm_air_pollution_forecast :: "owm_pollution list option http"
  iqair_nearest_city :: "iqair_body http"

text \<open>
  \<open>Math.round(x * 10) / 10\<close> on a component, and
  \<open>Math.round(x / 1000 * 100) / 100\<close> on the CO component, each operation rounded by
  the runtime: \<open>null\<close> counts as 0, a missing component gives \<open>NaN\<close>.
\<close>

definition round_component :: "js_math \<Rightarrow> jsval \<Rightarrow> real option" where
  "round_component M v =
     (case v of
        Undefined \<Rightarrow> None
      | Null \<Rightarrow> Some 0
      | Num c \<Rightarrow> Some (js_fl M (of_int (Math_round (js_fl M (c * 10))) / 10)))"

definition round_co :: "js_math \<Rightarrow> jsval \<Rightarrow> real option" where
  "round_co M v =
     (case v of
        Undefined \<Rightarrow> None
      | Null \<Rightarrow> Some 0
      | Num c \<Rightarrow> Some (js_fl M (of_int (Math_round (js_fl M (js_fl M (c / 1000) * 100))) / 100)))"

definition owm_pollutants :: "js_math \<Rightarrow> owm_components \<Rightarrow> bool \<Rightarrow> pollutants" where
  "owm_pollutants M cs with_nh3 =
     \<lparr>r_pm25 = round_component M (c_pm2_5 cs),
      r_pm10 = round_component M (c_pm10 cs),
      r_no2 = round_component M (c_no2 cs),
      r_so2 = round_component M (c_so2 cs),
      r_co = round_co M (c_co cs),
      r_o3 = round_component M (c_o3 cs),
      r_nh3 = (if with_nh3 then round_component M (c_nh3 cs) else None)\<rparr>"

definition formatOpenWeatherMapResponse :: "js_math \<Rightarrow> owm_pollution \<Rightarrow> real \<Rightarrow> real \<Rightarrow> reading" where
  "formatOpenWeatherMapResponse M pollution lat lng =
     (let cs = components pollution;
          indianAQI = convertToIndianAQI (c_pm2_5 cs) (c_pm10 cs) (c_no2 cs) (c_so2 cs) (c_co cs) (c_o3 cs);
          cityInfo = getCityFromCoordinates M lat lng
      in \<lparr>rd_location =
            \<lparr>loc_name = city_name cityInfo, loc_latitude = lat, loc_longitude = lng,
             loc_state = city_state cityInfo, loc_country = None, stationType = ''OpenWeatherMap''\<rparr>,
          rd_aqi =
            \<lparr>aqi_value = of_int indianAQI, aqi_category = getAQICategory (of_int indianAQI),
             lastUpdated = dt pollution * 1000\<rparr>,
          rd_pollutants = owm_pollutants M cs True,
          rd_weather = None,
          source = ''OpenWeatherMap'',
          isRealData = True\<rparr>)"

definition convertUSAQIToIndian :: "real \<Rightarrow> real" where
  "convertUSAQIToIndian usAQI =
     (if usAQI \<le> 50 then usAQI
      else if usAQI \<le> 100 then usAQI
      else if usAQI \<le> 150 then of_int (Math_round (usAQI * 1.33))
      else if usAQI \<le> 200 then of_int (Math_round (usAQI * 1.5))
      else if usAQI \<le> 300 then of_int (Math_round (usAQI * 1.33))
      else min usAQI 500)"

definition formatIQAirResponse :: "iqair_data \<Rightarrow> real \<Rightarrow> real \<Rightarrow> reading" where
  "formatIQAirResponse d lat lng =
     (let pollution = iq_pollution d;
          weather = iq_weather d;
          usAQI = aqius pollution;
          indianAQI = convertUSAQIToIndian usAQI
      in \<lparr>rd_location =
            \<lparr>loc_name = iq_city d, loc_latitude = lat, loc_longitude = lng,
             loc_state = iq_state d, loc_country = Some (iq_country d), stationType = ''IQAir''\<rparr>,
          rd_aqi =
            \<lparr>aqi_value = indianAQI, aqi_category = getAQICategory indianAQI, lastUpdated = ts pollution\<rparr>,
          rd_pollutants =
            \<lparr>r_pm25 = Some (case p2 pollution of None \<Rightarrow> 0 | Some v \<Rightarrow> v),
             r_pm10 = Some (case p1 pollution of None \<Rightarrow> 0 | Some v \<Rightarrow> v),
             r_no2 = None, r_so2 = None, r_co = None, r_o3 = None, r_nh3 = None\<rparr>,
          rd_weather =
            Some \<lparr>temperature = tp weather, humidity = hu weather, pressure = pr weather,
                  windSpeed = ws weather\<rparr>,
          source = ''IQAir'',
          isRealData = True\<rparr>)"

text \<open>
  The two adapters: every failure inside the \<open>try\<close> block, the explicit \<open>throw\<close> on an
  empty or missing list or on a body without success included, ends in \<open>return null\<close>.
\<close>

definition fetchFromOpenWeatherMap :: "js_math \<Rightarrow> world \<Rightarrow> real \<Rightarrow> real \<Rightarrow> reading option" where
  "fetchFromOpenWeatherMap M w lat lng =
     (case owm_air_pollution w of
        Failed \<Rightarrow> None
      | Response None \<Rightarrow> None
      | Response (Some []) \<Rightarrow> None
      | Response (Some (pollution # rest)) \<Rightarrow> Some (formatOpenWeatherMapResponse M pollution lat lng))"

definition fetchFromIQAir :: "world \<Rightarrow> real \<Rightarrow> real \<Rightarrow> reading option" where
  "fetchFromIQAir w lat lng =
     (case iqair_nearest_city w of
        Failed \<Rightarrow> None
      | Response body \<Rightarrow>
          (if status body \<noteq> ''success'' then None
           else case data body of
                  None \<Rightarrow> None
                | Some d \<Rightarrow> Some (formatIQAirResponse d lat lng)))"

section \<open>Aggregation (services/realAqiService.js)\<close>

text \<open>
  The service's configuration, read from the environment by the constructor. A variable
  that is not set is \<open>None\<close>; \<open>!key\<close> holds for an unset and for an empty one.
\<close>

record config =
  useRealData :: bool
  openWeatherApiKey :: "string option"
  iqAirApiKey :: "string option"

definition falsy :: "string option \<Rightarrow> bool" where
  "falsy k = (k = None \<or> k = Some [])"

datatype provider = OpenWeatherMap | IQAir

text \<open>
  \<open>fetchRealTimeAQI\<close>, returning the reading with the list of providers it called, in
  order. Neither adapter throws, nor does \<open>getMockAQIData\<close>, so the outer \<open>catch\<close>
  has no path of its own.
\<close>

definition fetchRealTimeAQI ::
  "js_math \<Rightarrow> config \<Rightarrow> world \<Rightarrow> real \<Rightarrow> real \<Rightarrow> int \<Rightarrow> (nat \<Rightarrow> real)
     \<Rightarrow> reading \<times> provider list" where
  "fetchRealTimeAQI M cfg w lat lng now rnd =
     (if \<not> useRealData cfg \<or> falsy (openWeatherApiKey cfg)
         \<or> openWeatherApiKey cfg = Some ''placeholder_openweather_key''
      then (getMockAQIData M lat lng False now rnd, [])
      else case fetchFromOpenWeatherMap M w lat lng of
             Some owmData \<Rightarrow> (owmData, [OpenWeatherMap])
           | None \<Rightarrow>
               (if \<not> falsy (iqAirApiKey cfg) \<and> iqAirApiKey cfg \<noteq> Some ''placeholder_iqair_key''
                then case fetchFromIQAir w lat lng of
                       Some iqAirData \<Rightarrow> (iqAirData, [OpenWeatherMap, IQAir])
                     | None \<Rightarrow>
                         (getMockAQIData M lat lng True now rnd,
                          [OpenWeatherMap, IQAir])
                else (getMockAQIData M lat lng True now rnd, [OpenWeatherMap])))"

section \<open>Forecast (services/realAqiService.js)\<close>

record forecast_point =
  fp_timestamp :: int
  hoursAhead :: int
  predictedAqi :: real
  confidence :: real
  fp_category :: string
  fp_pollutants :: "pollutants option"

record forecast_result =
  fc_location :: city
  forecast :: "forecast_point list"
  model :: string
  fc_source :: string
  accuracy :: string
  fc_isRealData :: bool

text \<open>\<open>xs.slice(0, e)\<close> for an integer \<open>e\<close>: a negative end counts from the end of the array.\<close>

definition slice0 :: "'a list \<Rightarrow> int \<Rightarrow> 'a list" where
  "slice0 xs e = take (nat (if e < 0 then int (length xs) + e else e)) xs"

text \<open>
  One pass of the loop of \<open>getMockForecastData\<close>, for the hour \<open>i\<close>; the \<open>i\<close>-th pass
  makes the \<open>i\<close>-th call of \<open>Math.random()\<close>.
\<close>

definition mock_forecast_point ::
  "int \<Rightarrow> int \<Rightarrow> int \<Rightarrow> (nat \<Rightarrow> real) \<Rightarrow> int \<Rightarrow> forecast_point" where
  "mock_forecast_point base hours now rnd i =
     (let variation = sin (of_int i / 12) * 30 + rnd (nat (i - 1)) * 20 - 10;
          predicted = max 10 (min 450 (Math_round (of_int base + variation)))
      in \<lparr>fp_timestamp = now + i * 60 * 60 * 1000,
          hoursAhead = i,
          predictedAqi = of_int predicted,
          confidence = 0.75 - (of_int i / of_int hours) * 0.2,
          fp_category = getAQICategory (of_int predicted),
          fp_pollutants = None\<rparr>)"

definition getMockForecastData ::
  "js_math \<Rightarrow> real \<Rightarrow> real \<Rightarrow> int \<Rightarrow> int \<Rightarrow> (nat \<Rightarrow> real) \<Rightarrow> forecast_result" where
  "getMockForecastData M lat lng hours now rnd =
     (let cityInfo = getCityFromCoordinates M lat lng;
          base = baseAQI (getCityMockData M lat lng);
          forecasts = map (mock_forecast_point base hours now rnd) [1..hours]
      in \<lparr>fc_location = cityInfo,
          forecast = forecasts,
          model = ''Mock_LSTM'',
          fc_source = ''mock_data'',
          accuracy = ''Mock data for development purposes'',
          fc_isRealData = False\<rparr>)"

text \<open>The callback of \<open>map\<close> on the provider's series: \<open>index\<close> counts from 0.\<close>

definition real_forecast_point :: "js_math \<Rightarrow> nat \<times> owm_pollution \<Rightarrow> forecast_point" where
  "real_forecast_point M p =
     (case p of (index, item) \<Rightarrow>
        (let cs = components item;
             indianAQI = convertToIndianAQI (c_pm2_5 cs) (c_pm10 cs) (c_no2 cs) (c_so2 cs) (c_co cs) (c_o3 cs)
         in \<lparr>fp_timestamp = dt item * 1000,
             hoursAhead = int index + 1,
             predictedAqi = of_int indianAQI,
             confidence = 0.85,
             fp_category = getAQICategory (of_int indianAQI),
             fp_pollutants = Some (owm_pollutants M cs False)\<rparr>))"

text \<open>
  \<open>fetchForecastData(lat, lng, hours)\<close>: the synthetic series without the flag or the
  key, and on every failure of the request; otherwise the first
  \<open>Math.min(hours, data.list.length)\<close> entries of the provider's series.
\<close>

definition fetchForecastData ::
  "js_math \<Rightarrow> config \<Rightarrow> world \<Rightarrow> real \<Rightarrow> real \<Rightarrow> int \<Rightarrow> int \<Rightarrow> (nat \<Rightarrow> real)
     \<Rightarrow> forecast_result" where
  "fetchForecastData M cfg w lat lng hours now rnd =
     (if \<not> useRealData cfg \<or> falsy (openWeatherApiKey cfg)
      then getMockForecastData M lat lng hours now rnd
      else case owm_air_pollution_forecast w of
             Failed \<Rightarrow> getMockForecastData M lat lng hours now rnd
           | Response None \<Rightarrow> getMockForecastData M lat lng hours now rnd
           | Response (Some []) \<Rightarrow> getMockForecastData M lat lng hours now rnd
           | Response (Some (item # items)) \<Rightarrow>
               (let list = item # items;
                    maxEntries = min hours (int (length list));
                    forecasts = map (real_forecast_point M) (enumerate 0 (slice0 list maxEntries))
                in \<lparr>fc_location = getCityFromCoordinates M lat lng,
                    forecast = forecasts,
                    model = ''OpenWeatherMap'',
                    fc_source = ''real_api'',
                    accuracy = ''Based on meteorological models and satellite data'',
                    fc_isRealData = True\<rparr>))"

text \<open>
  What claim C4 asks of a series for the horizon \<open>h\<close>: exactly \<open>h\<close> points, hours ahead
  1, 2, \<dots>, \<open>h\<close>, and a confidence that never rises from one point to the next.
\<close>

definition nonincreasing :: "real list \<Rightarrow> bool" where
  "nonincreasing xs = sorted (rev xs)"

definition forecast_as_claimed :: "int \<Rightarrow> forecast_point list \<Rightarrow> bool" where
  "forecast_as_claimed h ps =
     (int (length ps) = h \<and> map hoursAhead ps = [1..h] \<and> nonincreasing (map confidence ps))"

section \<open>Sample environments\<close>

text \<open>
  Concrete configurations and provider answers, used where a statement is evaluated at
  an input: a service with both keys, one without the IQAir key, one without the flag;
  a provider answer with one entry or with two, and a successful IQAir body.
\<close>

definition cfg_both_keys :: config where
  "cfg_both_keys =
     \<lparr>useRealData = True, openWeatherApiKey = Some ''owm-key'', iqAirApiKey = Some ''iqair-key''\<rparr>"

definition cfg_no_iqair_key :: config where
  "cfg_no_iqair_key = \<lparr>useRealData = True, openWeatherApiKey = Some ''owm-key'', iqAirApiKey = None\<rparr>"

definition cfg_offline :: config where
  "cfg_offline = \<lparr>useRealData = False, openWeatherApiKey = None, iqAirApiKey = None\<rparr>"

definition sample_item :: owm_pollution where
  "sample_item =
     \<lparr>components = \<lparr>c_pm2_5 = Num 35, c_pm10 = Num 40, c_no2 = Num 5, c_so2 = Num 3, c_co = Num 300,
                     c_o3 = Num 60, c_nh3 = Num 1\<rparr>,
      dt = 1700000000\<rparr>"

definition sample_iqair_body :: iqair_body where
  "sample_iqair_body =
     \<lparr>status = ''success'',
      data = Some \<lparr>iq_city = ''Mumbai'', iq_state = ''Maharashtra'', iq_country = ''India'',
                   iq_pollution = \<lparr>aqius = 120, ts = 1700000000000, p2 = Some 43, p1 = None\<rparr>,
                   iq_weather = \<lparr>tp = 30, hu = 70, pr = 1009, ws = 3\<rparr>\<rparr>\<rparr>"

definition world_primary_down :: world where
  "world_primary_down =
     \<lparr>owm_air_pollution = Failed, owm_air_pollution_forecast = Failed,
      iqair_nearest_city = Response sample_iqair_body\<rparr>"

definition world_all_down :: world where
  "world_all_down =
     \<lparr>owm_air_pollution = Failed, owm_air_pollution_forecast = Failed, iqair_nearest_city = Failed\<rparr>"

definition world_up :: world where
  "world_up =
     \<lparr>owm_air_pollution = Response (Some [sample_item]),
      owm_air_pollution_forecast = Response (Some [sample_item, sample_item]),
      iqair_nearest_city = Response sample_iqair_body\<rparr>"

section \<open>Stored readings (services/databaseService.js)\<close>

text \<open>
  The two tables the route uses, as lists in insertion order. A location's id is a fresh
  value on creation (the number of rows so far stands for Prisma's generated id).
  \<open>reachable\<close> says whether the database answers; when it does not, every query throws.
\<close>

record location_row =
  row_id :: nat
  row_name :: string
  row_latitude :: real
  row_longitude :: real
  row_state :: string
  row_stationType :: string
  isActive :: bool

record aqi_log =
  log_locationId :: nat
  log_aqi :: real
  log_category :: string
  log_pollutants :: pollutants
  log_source :: string
  log_timestamp :: int

record database =
  reachable :: bool
  locations :: "location_row list"
  logs :: "aqi_log list"

definition at_coordinate :: "real \<Rightarrow> real \<Rightarrow> location_row \<Rightarrow> bool" where
  "at_coordinate lat lng r = (row_latitude r = lat \<and> row_longitude r = lng)"

text \<open>
  \<open>upsertLocation\<close>: the row with the reading's latitude and longitude gets the new
  name, state and station type; without such a row a new, active one is appended.
  The result is the table and the row.
\<close>

fun update_first :: "('a \<Rightarrow> bool) \<Rightarrow> ('a \<Rightarrow> 'a) \<Rightarrow> 'a list \<Rightarrow> 'a list" where
  "update_first P f [] = []"
| "update_first P f (x # xs) = (if P x then f x # xs else x # update_first P f xs)"

definition upsertLocation :: "location_row list \<Rightarrow> location \<Rightarrow> location_row list \<times> location_row" where
  "upsertLocation rows locationData =
     (let here = at_coordinate (loc_latitude locationData) (loc_longitude locationData);
          upd = (\<lambda>r. r\<lparr>row_name := loc_name locationData, row_state := loc_state locationData,
                       row_stationType := stationType locationData\<rparr>)
      in case find here rows of
           Some r \<Rightarrow> (update_first here upd rows, upd r)
         | None \<Rightarrow>
             (let r = \<lparr>row_id = length rows, row_name = loc_name locationData,
                       row_latitude = loc_latitude locationData, row_longitude = loc_longitude locationData,
                       row_state = loc_state locationData, row_stationType = stationType locationData,
                       isActive = True\<rparr>
              in (rows @ [r], r)))"

datatype db_error = SaveFailed

text \<open>
  \<open>saveAQIData\<close>: upsert the location, append the log. The pollutant columns are the
  six of the schema; \<open>nh3\<close> is not stored.
\<close>

definition saveAQIData :: "database \<Rightarrow> reading \<Rightarrow> db_error + database" where
  "saveAQIData db aqiData =
     (if \<not> reachable db then Inl SaveFailed
      else (case upsertLocation (locations db) (rd_location aqiData) of
              (rows, location) \<Rightarrow>
                Inr (db\<lparr>locations := rows,
                        logs := logs db @
                          [\<lparr>log_locationId = row_id location,
                            log_aqi = aqi_value (rd_aqi aqiData),
                            log_category = aqi_category (rd_aqi aqiData),
                            log_pollutants = (rd_pollutants aqiData)\<lparr>r_nh3 := None\<rparr>,
                            log_source = source aqiData,
                            log_timestamp = lastUpdated (rd_aqi aqiData)\<rparr>]\<rparr>)))"

text \<open>
  The double arithmetic of PostgreSQL: \<open>pg_fl x\<close> is the double an operation returns
  whose exact result is \<open>x\<close>; \<open>pg_radians\<close>, \<open>pg_sin\<close>, \<open>pg_cos\<close> and \<open>pg_acos\<close>
  (on \<open>[-1, 1]\<close>) are the SQL functions on doubles.
\<close>

record pg_math =
  pg_fl :: "real \<Rightarrow> real"
  pg_radians :: "real \<Rightarrow> real"
  pg_sin :: "real \<Rightarrow> real"
  pg_cos :: "real \<Rightarrow> real"
  pg_acos :: "real \<Rightarrow> real"

text \<open>
  The distance expression of the SQL query of \<open>getLatestAQI\<close>, from the request's
  coordinate to a stored one. PostgreSQL's \<open>acos\<close> raises an error (input is out of
  range) on an argument below -1 or above 1: then the value is \<open>None\<close>.
\<close>

definition sql_distance :: "pg_math \<Rightarrow> real \<Rightarrow> real \<Rightarrow> real \<Rightarrow> real \<Rightarrow> real option" where
  "sql_distance P lat lng latitude longitude =
     (let fl = pg_fl P;
          x = fl (fl (fl (pg_cos P (pg_radians P lat) * pg_cos P (pg_radians P latitude))
                       * pg_cos P (fl (pg_radians P longitude - pg_radians P lng)))
                  + fl (pg_sin P (pg_radians P lat) * pg_sin P (pg_radians P latitude)))
      in if x < - 1 \<or> 1 < x then None else Some (fl (6371 * pg_acos P x)))"

text \<open>The arithmetic without rounding, the reference PostgreSQL approximates.\<close>

definition pg_exact :: pg_math where
  "pg_exact =
     \<lparr>pg_fl = (\<lambda>x. x), pg_radians = (\<lambda>x. x * pi / 180), pg_sin = sin, pg_cos = cos,
      pg_acos = arccos\<rparr>"

text \<open>
  \<open>ORDER BY \<dots> LIMIT 1\<close> and \<open>findFirst\<close> with \<open>orderBy\<close>: the first row, in table
  order, among those with the least key. (SQL leaves the choice among equal keys open.)
\<close>

fun first_min :: "('a \<Rightarrow> 'b::linorder) \<Rightarrow> 'a list \<Rightarrow> 'a option" where
  "first_min key [] = None"
| "first_min key (x # xs) =
     (case first_min key xs of
        None \<Rightarrow> Some x
      | Some y \<Rightarrow> if key x \<le> key y then Some x else Some y)"

text \<open>
  What the \<open>WHERE\<close> clause keeps of a row: the row with its distance, when the distance
  is within the radius and the row is active.
\<close>

definition within_radius :: "pg_math \<Rightarrow> real \<Rightarrow> real \<Rightarrow> real \<Rightarrow> location_row \<Rightarrow> (real \<times> location_row) option" where
  "within_radius P lat lng radius r =
     (case sql_distance P lat lng (row_latitude r) (row_longitude r) of
        None \<Rightarrow> None
      | Some d \<Rightarrow> if d \<le> radius \<and> isActive r then Some (d, r) else None)"

text \<open>
  \<open>getLatestAQI(lat, lng, radius)\<close>: the nearest active location within the radius,
  then its log with the latest timestamp, returned with the location; \<open>null\<close> when
  there is no such location or log, and when the query throws: the database does not
  answer, or the distance expression raises on a row of the table. (The model evaluates
  the expression on every row; in which order PostgreSQL tests the two conditions of the
  \<open>WHERE\<close> clause on a row that is not active is the planner's choice.)
\<close>

definition getLatestAQI ::
  "pg_math \<Rightarrow> database \<Rightarrow> real \<Rightarrow> real \<Rightarrow> real \<Rightarrow> (aqi_log \<times> location_row) option" where
  "getLatestAQI P db lat lng radius =
     (if \<not> reachable db then None
      else if list_ex (\<lambda>r. sql_distance P lat lng (row_latitude r) (row_longitude r) = None) (locations db)
      then None
      else case first_min fst (List.map_filter (within_radius P lat lng radius) (locations db)) of
             None \<Rightarrow> None
           | Some nearest \<Rightarrow>
               (case first_min (\<lambda>l. - log_timestamp l)
                       (filter (\<lambda>l. log_locationId l = row_id (snd nearest)) (logs db)) of
                  None \<Rightarrow> None
                | Some latestAQI \<Rightarrow> Some (latestAQI, snd nearest)))"

section \<open>The current-AQI route (routes/aqi.js)\<close>

text \<open>
  A query parameter: not in the query, the empty string, or a non-empty string with what
  \<open>parseFloat\<close> makes of it, \<open>None\<close> for \<open>NaN\<close>. (An infinite value fails every
  range check of the handler as \<open>NaN\<close> does, with the same answer, and is folded into
  \<open>None\<close>.)
\<close>

datatype qparam = QUndefined | QEmpty | QText "real option"

record request =
  q_lat :: qparam
  q_lng :: qparam
  q_radius :: qparam

definition falsy_param :: "qparam \<Rightarrow> bool" where
  "falsy_param p = (p = QUndefined \<or> p = QEmpty)"

definition parseFloat :: "qparam \<Rightarrow> real option" where
  "parseFloat p = (case p of QText v \<Rightarrow> v | _ \<Rightarrow> None)"

record aqi_payload =
  pl_location :: location
  pl_aqi :: categorized
  pl_lastUpdated :: int
  pl_pollutants :: pollutants
  pl_source :: string

record response =
  http_status :: nat
  success :: bool
  payload :: "aqi_payload option"
  message :: string
  meta_source :: "string option"
  meta_dataAge :: "int option"
  meta_isRealData :: "bool option"

datatype event = CacheLookup | ProviderCall | DbSave

definition bad_request :: "string \<Rightarrow> response" where
  "bad_request msg =
     \<lparr>http_status = 400, success = False, payload = None, message = msg, meta_source = None,
      meta_dataAge = None, meta_isRealData = None\<rparr>"

text \<open>\<open>isDataFresh\<close> and \<open>getDataAge\<close>, with the clock \<open>now\<close> in milliseconds.\<close>

definition isDataFresh :: "int \<Rightarrow> int \<Rightarrow> bool" where
  "isDataFresh now timestamp =
     (let diffInMinutes = (of_int (now - timestamp) :: real) / (1000 * 60)
      in diffInMinutes \<le> 60)"

definition getDataAge :: "int \<Rightarrow> int \<Rightarrow> int" where
  "getDataAge now timestamp = Math_round (of_int (now - timestamp) / (1000 * 60))"

definition formatCachedAQIResponse :: "aqi_log \<times> location_row \<Rightarrow> aqi_payload" where
  "formatCachedAQIResponse cachedData =
     (case cachedData of (l, loc) \<Rightarrow>
        \<lparr>pl_location =
           \<lparr>loc_name = row_name loc, loc_latitude = row_latitude loc, loc_longitude = row_longitude loc,
            loc_state = row_state loc, loc_country = None, stationType = row_stationType loc\<rparr>,
         pl_aqi = categorizeAQI (log_aqi l),
         pl_lastUpdated = log_timestamp l,
         pl_pollutants = log_pollutants l,
         pl_source = log_source l\<rparr>)"

text \<open>
  \<open>fetchRealTimeAQI\<close> of AQIService, the service this route constructs: the synthetic
  reading on both branches. Nothing in its \<open>try\<close> block throws.
\<close>

definition AQIService_fetchRealTimeAQI ::
  "js_math \<Rightarrow> string option \<Rightarrow> real \<Rightarrow> real \<Rightarrow> real \<Rightarrow> int \<Rightarrow> (nat \<Rightarrow> real) \<Rightarrow> reading" where
  "AQIService_fetchRealTimeAQI M cpcbApiKey lat lng radius now rnd =
     (if cpcbApiKey = Some ''placeholder_cpcb_key''
      then AQIService_getMockAQIData M lat lng False now rnd
      else AQIService_getMockAQIData M lat lng False now rnd)"

text \<open>
  The handler of \<open>GET /api/aqi\<close>. It returns the response, the database after the
  request and the calls it made, in order. \<open>M\<close> is the arithmetic of the runtime,
  \<open>P\<close> that of the database. No call in its \<open>try\<close> block throws (the database
  service catches its own failures on reads, the handler catches the failure of the
  save), so the handler's \<open>catch\<close>, the status 500, has no path.
\<close>

definition get_aqi ::
  "js_math \<Rightarrow> pg_math \<Rightarrow> string option \<Rightarrow> request \<Rightarrow> database \<Rightarrow> int \<Rightarrow> (nat \<Rightarrow> real)
     \<Rightarrow> response \<times> database \<times> event list" where
  "get_aqi M P cpcbApiKey req db now rnd =
     (if falsy_param (q_lat req) \<or> falsy_param (q_lng req)
      then (bad_request ''Latitude and longitude are required parameters'', db, [])
      else
        (case parseFloat (q_lat req) of
           None \<Rightarrow> (bad_request ''Invalid latitude. Must be between -90 and 90'', db, [])
         | Some latitude \<Rightarrow>
        if latitude < - 90 \<or> latitude > 90
        then (bad_request ''Invalid latitude. Must be between -90 and 90'', db, [])
        else
        (case parseFloat (q_lng req) of
           None \<Rightarrow> (bad_request ''Invalid longitude. Must be between -180 and 180'', db, [])
         | Some longitude \<Rightarrow>
        if longitude < - 180 \<or> longitude > 180
        then (bad_request ''Invalid longitude. Must be between -180 and 180'', db, [])
        else
        (case (if q_radius req = QUndefined then Some 10 else parseFloat (q_radius req)) of
           None \<Rightarrow> (bad_request ''Invalid radius. Must be between 0 and 100 km'', db, [])
         | Some searchRadius \<Rightarrow>
        if searchRadius \<le> 0 \<or> searchRadius > 100
        then (bad_request ''Invalid radius. Must be between 0 and 100 km'', db, [])
        else
        (let cachedData = getLatestAQI P db latitude longitude searchRadius;
             hit = (case cachedData of
                      None \<Rightarrow> False
                    | Some c \<Rightarrow> isDataFresh now (log_timestamp (fst c)))
         in if hit
            then (\<lparr>http_status = 200, success = True,
                   payload = map_option formatCachedAQIResponse cachedData,
                   message = ''AQI data retrieved from cache'',
                   meta_source = Some ''cache'',
                   meta_dataAge = map_option (\<lambda>c. getDataAge now (log_timestamp (fst c))) cachedData,
                   meta_isRealData = None\<rparr>,
                  db, [CacheLookup])
            else
              (let freshData = AQIService_fetchRealTimeAQI M cpcbApiKey latitude longitude searchRadius now rnd;
                   db' = (case saveAQIData db freshData of Inl e \<Rightarrow> db | Inr saved \<Rightarrow> saved)
               in (\<lparr>http_status = 200, success = True,
                    payload = Some \<lparr>pl_location = rd_location freshData,
                                    pl_aqi = categorizeAQI (aqi_value (rd_aqi freshData)),
                                    pl_lastUpdated = lastUpdated (rd_aqi freshData),
                                    pl_pollutants = rd_pollutants freshData,
                                    pl_source = source freshData\<rparr>,
                    message = ''AQI data retrieved successfully'',
                    meta_source = Some ''external_api'',
                    meta_dataAge = None,
                    meta_isRealData = Some (isRealData freshData)\<rparr>,
                   db', [CacheLookup, ProviderCall, DbSave])))))))"

section \<open>Sample requests\<close>

definition req_delhi :: request where
  "req_delhi = \<lparr>q_lat = QText (Some 28.6139), q_lng = QText (Some 77.2090), q_radius = QUndefined\<rparr>"

definition req_lat_95 :: request where
  "req_lat_95 = \<lparr>q_lat = QText (Some 95), q_lng = QText (Some 77.2090), q_radius = QUndefined\<rparr>"

definition req_radius_150 :: request where
  "req_radius_150 =
     \<lparr>q_lat = QText (Some 28.6139), q_lng = QText (Some 77.2090), q_radius = QText (Some 150)\<rparr>"

definition empty_db :: database where
  "empty_db = \<lparr>reachable = True, locations = [], logs = []\<rparr>"

section \<open>Rejected requests\<close>

text \<open>
  The conditions under which the handler answers 400, in the order it tests them: a
  missing latitude or longitude; a latitude that is not a number in \<open>[-90, 90]\<close>; a
  longitude that is not a number in \<open>[-180, 180]\<close>; a radius that is given and is not
  a number in \<open>(0, 100]\<close>.
\<close>

definition invalid_latitude :: "qparam \<Rightarrow> bool" where
  "invalid_latitude p = (case parseFloat p of None \<Rightarrow> True | Some x \<Rightarrow> x < - 90 \<or> x > 90)"

definition invalid_longitude :: "qparam \<Rightarrow> bool" where
  "invalid_longitude p = (case parseFloat p of None \<Rightarrow> True | Some x \<Rightarrow> x < - 180 \<or> x > 180)"

definition invalid_radius :: "qparam \<Rightarrow> bool" where
  "invalid_radius p =
     (p \<noteq> QUndefined \<and> (case parseFloat p of None \<Rightarrow> True | Some x \<Rightarrow> x \<le> 0 \<or> x > 100))"

definition rejected :: "request \<Rightarrow> bool" where
  "rejected req =
     (falsy_param (q_lat req) \<or> falsy_param (q_lng req) \<or> invalid_latitude (q_lat req)
      \<or> invalid_longitude (q_lng req) \<or> invalid_radius (q_radius req))"

section \<open>Stored entries and sample data for the cache\<close>

text \<open>The log row \<open>saveAQIData\<close> writes for a reading at the location with the given id.\<close>

definition stored_log :: "reading \<Rightarrow> nat \<Rightarrow> aqi_log" where
  "stored_log r i =
     \<lparr>log_locationId = i, log_aqi = aqi_value (rd_aqi r), log_category = aqi_category (rd_aqi r),
      log_pollutants = (rd_pollutants r)\<lparr>r_nh3 := None\<rparr>, log_source = source r,
      log_timestamp = lastUpdated (rd_aqi r)\<rparr>"

text \<open>
  A database with one location and a log of some hours ago, a reading for that location,
  and the database after the reading is saved.
\<close>

definition sample_reading :: reading where
  "sample_reading =
     \<lparr>rd_location = \<lparr>loc_name = ''New Delhi'', loc_latitude = 28.6139, loc_longitude = 77.2090,
                      loc_state = ''Delhi'', loc_country = None, stationType = ''Mock-CPCB''\<rparr>,
      rd_aqi = \<lparr>aqi_value = 168, aqi_category = ''Moderate'', lastUpdated = 1700000000000\<rparr>,
      rd_pollutants = \<lparr>r_pm25 = Some 105.3, r_pm10 = Some 209.1, r_no2 = Some 70, r_so2 = Some 35.2,
                        r_co = Some 1.9, r_o3 = Some 52.4, r_nh3 = None\<rparr>,
      rd_weather = None, source = ''Mock-CPCB'', isRealData = False\<rparr>"

definition delhi_row :: location_row where
  "delhi_row =
     \<lparr>row_id = 0, row_name = ''New Delhi'', row_latitude = 28.6139, row_longitude = 77.2090,
      row_state = ''Delhi'', row_stationType = ''Mock-CPCB'', isActive = True\<rparr>"

definition old_log :: aqi_log where
  "old_log =
     \<lparr>log_locationId = 0, log_aqi = 175, log_category = ''Moderate'',
      log_pollutants = \<lparr>r_pm25 = Some 110, r_pm10 = Some 215, r_no2 = Some 72, r_so2 = Some 36,
                         r_co = Some 2, r_o3 = Some 55, r_nh3 = None\<rparr>,
      log_source = ''Mock-CPCB'', log_timestamp = 1699990000000\<rparr>"

definition db_before :: database where
  "db_before = \<lparr>reachable = True, locations = [delhi_row], logs = [old_log]\<rparr>"

definition db_after :: database where
  "db_after = \<lparr>reachable = True, locations = [delhi_row], logs = [old_log, stored_log sample_reading 0]\<rparr>"

section \<open>The arithmetic of the runtimes at two inputs\<close>

text \<open>
  IEEE 754 double arithmetic, with the sine and the cosine rounded to the nearest double,
  on \<open>calculateDistance(-28.613900231, -102.7910004, 28.6139, 77.2090)\<close>: from the
  coordinate to New Delhi, the first reference city, which lies near the opposite point of
  the globe. Each double is written in its shortest decimal form. \<open>js_fl\<close> gives the
  results of the operations in the order the function makes them (an operation that is
  not listed is exact on the decimal forms), \<open>js_sin\<close> and \<open>js_cos\<close> those of the
  four calls. The two terms of \<open>a\<close> add up to 1.0000000000000002, so that \<open>1 - a\<close>
  is negative.
\<close>

definition js_at_antipode :: js_math where
  "js_at_antipode =
     \<lparr>js_fl = (\<lambda>x.
        if x = 57.227800231 * 3.141592653589793 then 179.78643678681388
        else if x = 179.78643678681388 / 180 then 0.9988135377045215
        else if x = 180.0000004 * 3.141592653589793 then 565.4866789027998
        else if x = 565.4866789027998 / 180 then 3.14159266057111
        else if x = 0.9988135377045215 / 2 then 0.49940676885226076
        else if x = 0.4789048449638315 * 0.4789048449638315 then 0.2293498505298315
        else if x = - 28.613900231 * 3.141592653589793 then - 89.89321875626088
        else if x = - 89.89321875626088 / 180 then - 0.49940677086811597
        else if x = 28.6139 * 3.141592653589793 then 89.89321803055299
        else if x = 89.89321803055299 / 180 then 0.4994067668364055
        else if x = 0.877866816649985 * 0.8778668185807906 then 0.7706501494701686
        else if x = 0.2293498505298315 + 0.7706501494701686 then 1.0000000000000002
        else if x = 1 - 1.0000000000000002 then - 0.0000000000000002220446049250313
        else x),
      js_sin = (\<lambda>x.
        if x = 0.49940676885226076 then 0.4789048449638315
        else if x = 1.570796330285555 then 1
        else sin x),
      js_cos = (\<lambda>x.
        if x = - 0.49940677086811597 then 0.877866816649985
        else if x = 0.4994067668364055 then 0.8778668185807906
        else cos x),
      js_sqrt = sqrt, js_atan2 = Math_atan2, js_PI = 3.141592653589793\<rparr>"

text \<open>
  IEEE 754 double arithmetic, with the sine and the cosine rounded to the nearest double,
  on the distance expression from latitude 12 and longitude 77 to a row stored at the
  same coordinate: \<open>radians\<close> of the two numbers, the cosine and the sine of the
  first, and the two products and their sum, which is 1.0000000000000002.
\<close>

definition pg_at_12_77 :: pg_math where
  "pg_at_12_77 =
     \<lparr>pg_fl = (\<lambda>x.
        if x = 0.9781476007338057 * 0.9781476007338057 then 0.9567727288213006
        else if x = 0.20791169081775934 * 0.20791169081775934 then 0.04322727117869955
        else if x = 0.9567727288213006 + 0.04322727117869955 then 1.0000000000000002
        else x),
      pg_radians = (\<lambda>x.
        if x = 12 then 0.20943951023931956
        else if x = 77 then 1.3439035240356338
        else x * pi / 180),
      pg_sin = (\<lambda>x. if x = 0.20943951023931956 then 0.20791169081775934 else sin x),
      pg_cos = (\<lambda>x.
        if x = 0.20943951023931956 then 0.9781476007338057
        else if x = 0 then 1
        else cos x),
      pg_acos = arccos\<rparr>"

definition req_12_77 :: request where
  "req_12_77 = \<lparr>q_lat = QText (Some 12), q_lng = QText (Some 77), q_radius = QUndefined\<rparr>"

section \<open>Properties of the sub-index\<close>

lemma interp_bounds:
  assumes "cLow bp < cHigh bp" "iLow bp \<le> iHigh bp" "cLow bp \<le> c" "c \<le> cHigh bp"
  shows "iLow bp \<le> ((iHigh bp - iLow bp) / (cHigh bp - cLow bp)) * (c - cLow bp) + iLow bp"
    and "((iHigh bp - iLow bp) / (cHigh bp - cLow bp)) * (c - cLow bp) + iLow bp \<le> iHigh bp"
proof -
  let ?k = "(iHigh bp - iLow bp) / (cHigh bp - cLow bp)"
  have k: "0 \<le> ?k" using assms by simp
  then show "iLow bp \<le> ?k * (c - cLow bp) + iLow bp" using assms by simp
  have "?k * (c - cLow bp) \<le> ?k * (cHigh bp - cLow bp)"
    using k assms by (intro mult_left_mono) auto
  also have "\<dots> = iHigh bp - iLow bp" using assms by simp
  finally show "?k * (c - cLow bp) + iLow bp \<le> iHigh bp" by simp
qed

lemma interp_mono:
  assumes "cLow bp < cHigh bp" "iLow bp \<le> iHigh bp" "c1 \<le> c2"
  shows "((iHigh bp - iLow bp) / (cHigh bp - cLow bp)) * (c1 - cLow bp) + iLow bp
       \<le> ((iHigh bp - iLow bp) / (cHigh bp - cLow bp)) * (c2 - cLow bp) + iLow bp"
proof -
  have "0 \<le> (iHigh bp - iLow bp) / (cHigh bp - cLow bp)" using assms by simp
  moreover have "c1 - cLow bp \<le> c2 - cLow bp" using assms by simp
  ultimately have "((iHigh bp - iLow bp) / (cHigh bp - cLow bp)) * (c1 - cLow bp)
       \<le> ((iHigh bp - iLow bp) / (cHigh bp - cLow bp)) * (c2 - cLow bp)"
    by (rule mult_left_mono[rotated])
  then show ?thesis by simp
qed

lemma table_ok_tail: "table_ok (bp # bps) \<Longrightarrow> table_ok bps"
  by (cases bps) auto

lemma table_ok_head: "table_ok (bp # bps) \<Longrightarrow> cLow bp < cHigh bp \<and> iLow bp \<le> iHigh bp"
  by (cases bps) auto

lemma table_ok_iHigh: "table_ok t \<Longrightarrow> bp \<in> set t \<Longrightarrow> iLow bp \<le> 500 \<and> iHigh bp \<le> 500"
proof (induction t arbitrary: bp rule: table_ok.induct)
  case 1
  then show ?case by simp
next
  case (2 b)
  then show ?case by simp
next
  case (3 b b' bs)
  have tl: "table_ok (b' # bs)" using "3.prems"(1) by simp
  have "iLow b' \<le> 500" using "3.IH"[OF tl, of b'] by simp
  then have "iLow b \<le> 500 \<and> iHigh b \<le> 500" using "3.prems"(1) by simp
  then show ?case using "3.IH"[OF tl, of bp] "3.prems"(2) by auto
qed

lemma subIndex_le_500: "table_ok t \<Longrightarrow> calculateSubIndex c t \<le> 500"
proof (induction t)
  case Nil
  show ?case by simp
next
  case (Cons bp bps)
  have hd: "cLow bp < cHigh bp" "iLow bp \<le> iHigh bp" "iHigh bp \<le> 500"
    using table_ok_head[OF Cons.prems] table_ok_iHigh[OF Cons.prems, of bp] by auto
  show ?case
  proof (cases "cLow bp \<le> c \<and> c \<le> cHigh bp")
    case True
    then show ?thesis using interp_bounds(2)[of bp c] hd by simp
  next
    case False
    then show ?thesis using Cons.IH table_ok_tail[OF Cons.prems] by auto
  qed
qed

lemma subIndex_ge_iLow:
  "table_ok (bp # bps) \<Longrightarrow> cLow bp \<le> c \<Longrightarrow> iLow bp \<le> calculateSubIndex c (bp # bps)"
proof (induction bps arbitrary: bp)
  case Nil
  then show ?case using interp_bounds(1)[of bp c] by auto
next
  case (Cons bp' bps)
  have hd: "cLow bp < cHigh bp" "iLow bp \<le> iHigh bp" "cHigh bp = cLow bp'" "iHigh bp \<le> iLow bp'"
    and tl: "table_ok (bp' # bps)"
    using Cons.prems(1) by auto
  show ?case
  proof (cases "c \<le> cHigh bp")
    case True
    then show ?thesis using interp_bounds(1)[of bp c] hd Cons.prems(2) by simp
  next
    case False
    then have "cLow bp' \<le> c" using hd by simp
    then have "iLow bp' \<le> calculateSubIndex c (bp' # bps)" using Cons.IH[OF tl] by simp
    then show ?thesis using False hd by simp
  qed
qed

lemma subIndex_mono:
  "table_ok (bp # bps) \<Longrightarrow> cLow bp \<le> c1 \<Longrightarrow> c1 \<le> c2 \<Longrightarrow>
     calculateSubIndex c1 (bp # bps) \<le> calculateSubIndex c2 (bp # bps)"
proof (induction bps arbitrary: bp)
  case Nil
  have hd: "cLow bp < cHigh bp" "iLow bp \<le> iHigh bp" "iHigh bp \<le> 500"
    using Nil.prems(1) by auto
  show ?case
  proof (cases "c2 \<le> cHigh bp")
    case True
    then show ?thesis using interp_mono[of bp c1 c2] hd Nil.prems by simp
  next
    case False
    then show ?thesis using interp_bounds(2)[of bp c1] hd Nil.prems by auto
  qed
next
  case (Cons bp' bps)
  have hd: "cLow bp < cHigh bp" "iLow bp \<le> iHigh bp" "cHigh bp = cLow bp'" "iHigh bp \<le> iLow bp'"
    and tl: "table_ok (bp' # bps)"
    using Cons.prems(1) by auto
  show ?case
  proof (cases "c2 \<le> cHigh bp")
    case True
    then show ?thesis using interp_mono[of bp c1 c2] hd Cons.prems by simp
  next
    case c2: False
    then have low2: "cLow bp' \<le> c2" using hd by simp
    show ?thesis
    proof (cases "c1 \<le> cHigh bp")
      case True
      have "calculateSubIndex c1 (bp # bp' # bps) \<le> iHigh bp"
        using True interp_bounds(2)[of bp c1] hd Cons.prems by simp
      also have "\<dots> \<le> iLow bp'" using hd by simp
      also have "\<dots> \<le> calculateSubIndex c2 (bp' # bps)"
        using subIndex_ge_iLow[OF tl low2] .
      finally show ?thesis using c2 by simp
    next
      case False
      then have "cLow bp' \<le> c1" using hd by simp
      then have "calculateSubIndex c1 (bp' # bps) \<le> calculateSubIndex c2 (bp' # bps)"
        using Cons.IH[OF tl] Cons.prems(3) by simp
      then show ?thesis using False c2 by simp
    qed
  qed
qed

lemma tables_ok:
  "table_ok pm25_breakpoints" "table_ok pm10_breakpoints" "table_ok no2_breakpoints"
  by (simp_all add: pm25_breakpoints_def pm10_breakpoints_def no2_breakpoints_def)

text \<open>
  Claim C7. For each of the three breakpoint tables of the converter and concentrations
  \<open>c1 \<le> c2\<close> inside the range the table covers (0 to 500), the sub-index of \<open>c1\<close>
  is at most the sub-index of \<open>c2\<close>.
\<close>

theorem calculateSubIndex_monotone:
  assumes "t \<in> set converter_tables" and "0 \<le> c1" and "c1 \<le> c2" and "c2 \<le> 500"
  shows "calculateSubIndex c1 t \<le> calculateSubIndex c2 t"
proof -
  have "table_ok t \<and> (\<exists>bp bps. t = bp # bps \<and> cLow bp = 0)"
    using assms(1) tables_ok
    by (auto simp: converter_tables_def pm25_breakpoints_def pm10_breakpoints_def no2_breakpoints_def)
  then obtain bp bps where "table_ok (bp # bps)" "t = bp # bps" "cLow bp = 0" by auto
  then show ?thesis using subIndex_mono[of bp bps c1 c2] assms by simp
qed

theorem calculateSubIndex_monotone_witness:
  "calculateSubIndex 35 pm25_breakpoints \<le> calculateSubIndex 95 pm25_breakpoints
   \<and> calculateSubIndex 35 pm25_breakpoints = 59 + 1 / 6
   \<and> calculateSubIndex 95 pm25_breakpoints = 217 + 1 / 2"
  using calculateSubIndex_monotone[of pm25_breakpoints 35 95]
  by (simp add: converter_tables_def pm25_breakpoints_def)

text \<open>
  Claim C8. For any table, a concentration above the upper bound of every segment gets
  the sub-index 500: the loop ends without a match and the function returns the constant.
\<close>

theorem calculateSubIndex_above_all:
  "\<forall>bp \<in> set t. cHigh bp < c \<Longrightarrow> calculateSubIndex c t = 500"
  by (induction t) auto

theorem calculateSubIndex_above_all_witness:
  "calculateSubIndex 500.5 pm10_breakpoints = 500 \<and> calculateSubIndex 1000 [] = 500"
  using calculateSubIndex_above_all[of pm10_breakpoints "500.5"]
    calculateSubIndex_above_all[of "[]" 1000]
  by (simp add: pm10_breakpoints_def)

section \<open>Properties of the overall index\<close>

lemma Math_round_mono: "x \<le> y \<Longrightarrow> Math_round x \<le> Math_round y"
  by (simp add: Math_round_def floor_mono)

lemma Math_round_of_int: "Math_round (of_int n) = n"
  by (simp add: Math_round_def)

lemma Math_round_max1: "Math_round (max 1 x) = max 1 (Math_round x)"
proof (cases "x \<le> 1")
  case True
  then have "Math_round x \<le> 1" using Math_round_mono[of x 1] Math_round_of_int[of 1] by simp
  then show ?thesis using True Math_round_of_int[of 1] by (simp add: max_def)
next
  case False
  then have "1 \<le> Math_round x" using Math_round_mono[of 1 x] Math_round_of_int[of 1] by simp
  then show ?thesis using False by (simp add: max_def)
qed

lemma Math_max_Cons: "Math_max (x # xs) d = max x (Math_max xs d)"
  by (simp add: Math_max_def)

lemma Math_max_ge: "d \<le> Math_max xs d"
  by (induction xs) (auto simp: Math_max_def)

lemma Math_max_Max: "xs \<noteq> [] \<Longrightarrow> Math_max xs d = max (Max (set xs)) d"
proof (induction xs)
  case Nil then show ?case by simp
next
  case (Cons x xs)
  show ?case
  proof (cases "xs = []")
    case True then show ?thesis by (simp add: Math_max_def)
  next
    case False
    then show ?thesis using Cons.IH by (simp add: Math_max_Cons max.assoc)
  qed
qed

lemma round_max_overall:
  "Math_round (Math_max xs 1) = (if xs = [] then 1 else max 1 (Math_round (Max (set xs))))"
proof (cases "xs = []")
  case True
  then show ?thesis using Math_round_of_int[of 1] by (simp add: Math_max_def)
next
  case False
  then have "Math_max xs 1 = max 1 (Max (set xs))" by (simp add: Math_max_Max max.commute)
  then show ?thesis using False by (simp add: Math_round_max1)
qed

lemma subIndex_of_zero:
  "calculateSubIndex 0 pm25_breakpoints = 0" "calculateSubIndex 0 pm10_breakpoints = 0"
  "calculateSubIndex 0 no2_breakpoints = 0"
  by (simp_all add: pm25_breakpoints_def pm10_breakpoints_def no2_breakpoints_def)

text \<open>
  The code against the specification's wording: \<open>convertToIndianAQI\<close> is the overall
  index of PM2.5, PM10 and NO2, whatever \<open>so2\<close>, \<open>co\<close> and \<open>o3\<close> are. A \<open>null\<close>
  gets the sub-index 0, which the final \<open>Math.max(\<dots>, 1)\<close> absorbs.
\<close>

lemma convertToIndianAQI_overallIndex:
  "convertToIndianAQI pm25 pm10 no2 so2 co o3 =
     overallIndex [(pm25, pm25_breakpoints), (pm10, pm10_breakpoints), (no2, no2_breakpoints)]"
proof -
  have "Math_max (pushSubIndex no2 no2_breakpoints (pushSubIndex pm10 pm10_breakpoints
          (pushSubIndex pm25 pm25_breakpoints []))) 1
      = Math_max (presentSubIndices [(pm25, pm25_breakpoints), (pm10, pm10_breakpoints), (no2, no2_breakpoints)]) 1"
    using Math_max_ge[of 1]
    by (cases pm25; cases pm10; cases no2)
       (simp_all add: pushSubIndex_def presentSubIndices_def subIndex_of_zero Math_max_Cons Math_max_def)
  then have "convertToIndianAQI pm25 pm10 no2 so2 co o3 =
      Math_round (Math_max (presentSubIndices [(pm25, pm25_breakpoints), (pm10, pm10_breakpoints), (no2, no2_breakpoints)]) 1)"
    by (simp add: convertToIndianAQI_def Let_def)
  also have "\<dots> = overallIndex [(pm25, pm25_breakpoints), (pm10, pm10_breakpoints), (no2, no2_breakpoints)]"
    unfolding overallIndex_def Let_def by (rule round_max_overall)
  finally show ?thesis .
qed

text \<open>The result of \<open>convertToIndianAQI\<close> lies between 1 and 500 for all arguments.\<close>

lemma convertToIndianAQI_range:
  "1 \<le> convertToIndianAQI pm25 pm10 no2 so2 co o3 \<and> convertToIndianAQI pm25 pm10 no2 so2 co o3 \<le> 500"
proof -
  let ?e = "[(pm25, pm25_breakpoints), (pm10, pm10_breakpoints), (no2, no2_breakpoints)]"
  have "\<forall>x \<in> set (presentSubIndices ?e). x \<le> 500"
    using tables_ok subIndex_le_500 by (auto simp: presentSubIndices_def split: jsval.splits)
  then have "presentSubIndices ?e \<noteq> [] \<Longrightarrow> Max (set (presentSubIndices ?e)) \<le> 500"
    by simp
  then have "presentSubIndices ?e \<noteq> [] \<Longrightarrow> Math_round (Max (set (presentSubIndices ?e))) \<le> 500"
    using Math_round_mono[of "Max (set (presentSubIndices ?e))" 500] Math_round_of_int[of 500] by simp
  then show ?thesis by (auto simp: convertToIndianAQI_overallIndex overallIndex_def Let_def)
qed

text \<open>
  Claim C1, at an input the code can receive: PM2.5 = 10, PM10 = 20, NO2 = 5, SO2 = 2000,
  CO = 300, O3 = 60 (all in \<open>\<mu>g/m\<^sup>3\<close>). The claim has a sub-index computed for every
  pollutant present, SO2 among them; the code answers 20, the rounded PM10 sub-index, and
  the same with the SO2, CO and O3 values left out: the three take no part in the index.
\<close>

theorem convertToIndianAQI_ignores_so2:
  "convertToIndianAQI (Num 10) (Num 20) (Num 5) (Num 2000) (Num 300) (Num 60) = 20
   \<and> convertToIndianAQI (Num 10) (Num 20) (Num 5) Undefined Undefined Undefined = 20"
  by (simp add: convertToIndianAQI_def pushSubIndex_def pm25_breakpoints_def pm10_breakpoints_def
      no2_breakpoints_def Math_max_def Math_round_def)

text \<open>
  Claim C2. A pollutant that is \<open>undefined\<close> (absent) or \<open>null\<close> is left out: the
  result is the overall index of the remaining pollutants alone. For PM2.5, PM10 and NO2
  the right-hand side is the specification's overall index of the other two; for SO2, CO
  and O3, which never enter the result, it is the call with that argument left out.
\<close>

theorem absent_or_null_excluded:
  "v \<in> {Undefined, Null} \<Longrightarrow>
     convertToIndianAQI v pm10 no2 so2 co o3 = overallIndex [(pm10, pm10_breakpoints), (no2, no2_breakpoints)]
   \<and> convertToIndianAQI pm25 v no2 so2 co o3 = overallIndex [(pm25, pm25_breakpoints), (no2, no2_breakpoints)]
   \<and> convertToIndianAQI pm25 pm10 v so2 co o3 = overallIndex [(pm25, pm25_breakpoints), (pm10, pm10_breakpoints)]
   \<and> convertToIndianAQI pm25 pm10 no2 v co o3 = convertToIndianAQI pm25 pm10 no2 Undefined co o3
   \<and> convertToIndianAQI pm25 pm10 no2 so2 v o3 = convertToIndianAQI pm25 pm10 no2 so2 Undefined o3
   \<and> convertToIndianAQI pm25 pm10 no2 so2 co v = convertToIndianAQI pm25 pm10 no2 so2 co Undefined"
  by (auto simp: convertToIndianAQI_overallIndex overallIndex_def presentSubIndices_def)

theorem absent_or_null_excluded_witness:
  "convertToIndianAQI (Num 35) Null Null Null Null Null = 59
   \<and> overallIndex [(Num 35, pm25_breakpoints), (Null, no2_breakpoints)] = 59
   \<and> convertToIndianAQI (Num 35) (Num 40) Undefined Undefined Undefined Undefined = 59
   \<and> overallIndex [(Num 35, pm25_breakpoints), (Num 40, pm10_breakpoints)] = 59"
  using absent_or_null_excluded[of Null "Num 35" Null Null Null Null "Num 35"]
    absent_or_null_excluded[of Undefined "Num 40" Undefined Undefined Undefined Undefined "Num 35"]
  by (simp add: overallIndex_def presentSubIndices_def pm25_breakpoints_def pm10_breakpoints_def
      Math_round_def)

section \<open>Properties of the categories\<close>

text \<open>
  Claim C10. On the six buckets of the scale, 0 to 50, 51 to 100, 101 to 200, 201 to 300,
  301 to 400 and 401 to 500, and on every value above 500, \<open>getAQICategory\<close> and
  \<open>categorizeAQI\<close> over \<open>AQI_CATEGORIES\<close> give the bucket's category (the first by its
  label, the second by key and label); above 500 both give SEVERE.
\<close>

theorem category_buckets:
  "(0 \<le> aqi \<and> aqi \<le> 50 \<longrightarrow>
      getAQICategory aqi = ''Good'' \<and> category (categorizeAQI aqi) = ''GOOD''
      \<and> label (categorizeAQI aqi) = ''Good'')
 \<and> (51 \<le> aqi \<and> aqi \<le> 100 \<longrightarrow>
      getAQICategory aqi = ''Satisfactory'' \<and> category (categorizeAQI aqi) = ''SATISFACTORY''
      \<and> label (categorizeAQI aqi) = ''Satisfactory'')
 \<and> (101 \<le> aqi \<and> aqi \<le> 200 \<longrightarrow>
      getAQICategory aqi = ''Moderate'' \<and> category (categorizeAQI aqi) = ''MODERATE''
      \<and> label (categorizeAQI aqi) = ''Moderate'')
 \<and> (201 \<le> aqi \<and> aqi \<le> 300 \<longrightarrow>
      getAQICategory aqi = ''Poor'' \<and> category (categorizeAQI aqi) = ''POOR''
      \<and> label (categorizeAQI aqi) = ''Poor'')
 \<and> (301 \<le> aqi \<and> aqi \<le> 400 \<longrightarrow>
      getAQICategory aqi = ''Very Poor'' \<and> category (categorizeAQI aqi) = ''VERY_POOR''
      \<and> label (categorizeAQI aqi) = ''Very Poor'')
 \<and> (401 \<le> aqi \<and> aqi \<le> 500 \<longrightarrow>
      getAQICategory aqi = ''Severe'' \<and> category (categorizeAQI aqi) = ''SEVERE''
      \<and> label (categorizeAQI aqi) = ''Severe'')
 \<and> (500 < aqi \<longrightarrow>
      getAQICategory aqi = ''Severe'' \<and> category (categorizeAQI aqi) = ''SEVERE''
      \<and> label (categorizeAQI aqi) = ''Severe'')"
  by (simp add: getAQICategory_def categorizeAQI_def AQI_CATEGORIES_def)

theorem category_buckets_witness:
  "category (categorizeAQI 25) = ''GOOD'' \<and> getAQICategory 25 = ''Good''
 \<and> category (categorizeAQI 51) = ''SATISFACTORY'' \<and> getAQICategory 51 = ''Satisfactory''
 \<and> category (categorizeAQI 200) = ''MODERATE'' \<and> getAQICategory 200 = ''Moderate''
 \<and> category (categorizeAQI 250) = ''POOR'' \<and> getAQICategory 250 = ''Poor''
 \<and> category (categorizeAQI 301) = ''VERY_POOR'' \<and> getAQICategory 301 = ''Very Poor''
 \<and> category (categorizeAQI 500) = ''SEVERE'' \<and> getAQICategory 500 = ''Severe''
 \<and> category (categorizeAQI 612) = ''SEVERE'' \<and> getAQICategory 612 = ''Severe''"
  using category_buckets[of 25] category_buckets[of 51] category_buckets[of 200]
    category_buckets[of 250] category_buckets[of 301] category_buckets[of 500]
    category_buckets[of 612]
  by simp

text \<open>
  On every integer from 0 up the two functions agree, label for label. Between two
  buckets and below 0, where the rounded index of the converter and of the synthetic
  generators never lies, they do not: the chain of upper bounds puts 50.5 in the second
  bucket, the table of closed ranges has no entry for it.
\<close>

lemma categories_agree_on_integers:
  "0 \<le> n \<Longrightarrow> label (categorizeAQI (of_int n)) = getAQICategory (of_int n)"
  by (auto simp: getAQICategory_def categorizeAQI_def AQI_CATEGORIES_def)

lemma categories_differ_between_buckets:
  "getAQICategory 50.5 = ''Satisfactory'' \<and> category (categorizeAQI 50.5) = ''SEVERE''"
  by (simp add: getAQICategory_def categorizeAQI_def AQI_CATEGORIES_def)

section \<open>Properties of the synthetic reading\<close>

lemma closest_loop_in: "closest_loop M lat lng cs c d \<in> insert c (set cs)"
  by (induction cs arbitrary: c d) (auto simp: Let_def)

lemma getCityMockData_in: "getCityMockData M lat lng \<in> set mock_cities"
proof -
  have "mock_cities ! 0 \<in> set mock_cities" by (simp add: mock_cities_def)
  then have "insert (mock_cities ! 0) (set mock_cities) = set mock_cities" by auto
  then show ?thesis
    unfolding getCityMockData_def closest_city_def
    using closest_loop_in[of M lat lng mock_cities "mock_cities ! 0"
        "calculateDistance M lat lng (city_lat (mock_cities ! 0)) (city_lng (mock_cities ! 0))"]
    by simp
qed

lemma baseAQI_bounds:
  "100 \<le> baseAQI (getCityMockData M lat lng) \<and> baseAQI (getCityMockData M lat lng) \<le> 180"
proof -
  have "\<forall>c \<in> set mock_cities. 100 \<le> baseAQI c \<and> baseAQI c \<le> 180"
    by (simp add: mock_cities_def)
  then show ?thesis using getCityMockData_in by blast
qed

lemma noise_bounds: "0 \<le> (x::real) \<Longrightarrow> x < 40 \<Longrightarrow> 0 \<le> \<lfloor>x\<rfloor> \<and> \<lfloor>x\<rfloor> \<le> (39::int)"
proof -
  assume a: "0 \<le> x" "x < (40::real)"
  then have "0 \<le> \<lfloor>x\<rfloor>" "\<lfloor>x\<rfloor> < 40" by (simp_all add: floor_less_iff)
  then show ?thesis by simp
qed

text \<open>
  The bounds and the tags of the synthetic reading, at every coordinate and in every
  arithmetic: when the product \<open>Math.random() * 40\<close> is from 0 up to but not including 40, the AQI of the
  reading is between 1 and 500, and from 20 below to 19 above the baseline of the city
  \<open>getCityMockData\<close> picks, which is one of the reference cities; \<open>isRealData\<close> is
  false and source and station type carry the mock tag.
\<close>

lemma getMockAQIData_in_range_and_tagged:
  assumes "0 \<le> js_fl M (rnd 0 * 40)" and "js_fl M (rnd 0 * 40) < 40"
  shows "(let r = getMockAQIData M lat lng isError now rnd;
              base = of_int (baseAQI (getCityMockData M lat lng))
          in 1 \<le> aqi_value (rd_aqi r) \<and> aqi_value (rd_aqi r) \<le> 500
             \<and> base - 20 \<le> aqi_value (rd_aqi r) \<and> aqi_value (rd_aqi r) \<le> base + 19
             \<and> aqi_value (rd_aqi r) = base + of_int \<lfloor>js_fl M (rnd 0 * 40)\<rfloor> - 20
             \<and> \<not> isRealData r
             \<and> source r = (if isError then ''Mock-Fallback'' else ''Mock-Development'')
             \<and> stationType (rd_location r) = source r)
       \<and> getCityMockData M lat lng \<in> set mock_cities"
proof -
  let ?b = "baseAQI (getCityMockData M lat lng)"
  let ?n = "\<lfloor>js_fl M (rnd 0 * 40)\<rfloor>"
  have b: "100 \<le> ?b" "?b \<le> 180" using baseAQI_bounds by auto
  have n: "0 \<le> ?n" "?n \<le> 39" using noise_bounds[OF assms] by auto
  have clamp: "max 1 (min 500 (?b + ?n - 20)) = ?b + ?n - 20" using b n by linarith
  have v: "aqi_value (rd_aqi (getMockAQIData M lat lng isError now rnd)) = of_int (?b + ?n - 20)"
    using clamp by (simp add: getMockAQIData_def Let_def)
  have r1: "(1::real) \<le> of_int (?b + ?n - 20)" using b n by linarith
  have r2: "of_int (?b + ?n - 20) \<le> (500::real)" using b n by linarith
  have r3: "of_int ?b - (20::real) \<le> of_int (?b + ?n - 20)" using n by simp
  have r4: "of_int (?b + ?n - 20) \<le> of_int ?b + (19::real)" using n by linarith
  have reading: "(let r = getMockAQIData M lat lng isError now rnd;
              base = of_int (baseAQI (getCityMockData M lat lng))
          in 1 \<le> aqi_value (rd_aqi r) \<and> aqi_value (rd_aqi r) \<le> 500
             \<and> base - 20 \<le> aqi_value (rd_aqi r) \<and> aqi_value (rd_aqi r) \<le> base + 19
             \<and> aqi_value (rd_aqi r) = base + of_int \<lfloor>js_fl M (rnd 0 * 40)\<rfloor> - 20
             \<and> \<not> isRealData r
             \<and> source r = (if isError then ''Mock-Fallback'' else ''Mock-Development'')
             \<and> stationType (rd_location r) = source r)"
    unfolding Let_def v using r1 r2 r3 r4 by (simp add: getMockAQIData_def Let_def)
  show ?thesis
    using reading getCityMockData_in by blast
qed

text \<open>
  When every distance is a number, the loop returns a city at the least distance:
  \<open>f\<close> gives the distance of each city.
\<close>

lemma closest_loop_min:
  "d = Val (f c) \<Longrightarrow>
   \<forall>x \<in> set cs. calculateDistance M lat lng (city_lat x) (city_lng x) = Val (f x) \<Longrightarrow>
   f (closest_loop M lat lng cs c d) \<le> f c
   \<and> (\<forall>x \<in> set cs. f (closest_loop M lat lng cs c d) \<le> f x)"
proof (induction cs arbitrary: c d)
  case Nil
  then show ?case by simp
next
  case (Cons x xs)
  have dx: "calculateDistance M lat lng (city_lat x) (city_lng x) = Val (f x)"
    using Cons.prems(2) by simp
  have rest: "\<forall>y \<in> set xs. calculateDistance M lat lng (city_lat y) (city_lng y) = Val (f y)"
    using Cons.prems(2) by simp
  show ?case
  proof (cases "f x < f c")
    case True
    then have eq: "closest_loop M lat lng (x # xs) c d = closest_loop M lat lng xs x (Val (f x))"
      using dx Cons.prems(1) by (simp add: Let_def js_less_def)
    have "Val (f x) = Val (f x)" by simp
    from Cons.IH[OF this rest] show ?thesis unfolding eq using True by auto
  next
    case False
    then have eq: "closest_loop M lat lng (x # xs) c d = closest_loop M lat lng xs c d"
      using dx Cons.prems(1) by (simp add: Let_def js_less_def)
    from Cons.IH[OF Cons.prems(1) rest] show ?thesis unfolding eq using False by auto
  qed
qed

lemma getCityMockData_nearest:
  assumes "\<forall>x \<in> set mock_cities. calculateDistance M lat lng (city_lat x) (city_lng x) = Val (f x)"
    and "c \<in> set mock_cities"
  shows "f (getCityMockData M lat lng) \<le> f c"
proof -
  have "mock_cities ! 0 \<in> set mock_cities" by (simp add: mock_cities_def)
  then have "calculateDistance M lat lng (city_lat (mock_cities ! 0)) (city_lng (mock_cities ! 0))
      = Val (f (mock_cities ! 0))"
    using assms(1) by blast
  from closest_loop_min[OF this assms(1)] show ?thesis
    using assms(2) by (simp add: getCityMockData_def closest_city_def)
qed

text \<open>Once the distance kept is \<open>NaN\<close>, no city replaces the one kept.\<close>

lemma closest_loop_NaN: "closest_loop M lat lng cs c NaN = c"
  by (induction cs) (simp_all add: Let_def js_less_def split: js_number.splits)


section \<open>The distance in exact arithmetic\<close>

lemma Math_atan2_nonneg: "0 \<le> y \<Longrightarrow> 0 \<le> Math_atan2 y x"
proof -
  assume y: "0 \<le> y"
  consider "x > 0" | "x < 0" | "x = 0" by linarith
  then show ?thesis
  proof cases
    case 1
    then have "0 \<le> y / x" using y by simp
    then show ?thesis using 1 by (simp add: Math_atan2_def zero_le_arctan_iff)
  next
    case 2
    have "- (pi / 2) < arctan (y / x)" by (rule arctan_lbound)
    then have "0 < arctan (y / x) + pi" using pi_gt_zero by linarith
    then show ?thesis using 2 y by (simp add: Math_atan2_def)
  next
    case 3
    then show ?thesis using y by (simp add: Math_atan2_def)
  qed
qed

lemma Math_atan2_pos: "0 < y \<Longrightarrow> 0 < Math_atan2 y x"
proof -
  assume y: "0 < y"
  consider "x > 0" | "x < 0" | "x = 0" by linarith
  then show ?thesis
  proof cases
    case 1
    then have "0 < y / x" using y by simp
    then show ?thesis using 1 by (simp add: Math_atan2_def zero_less_arctan_iff)
  next
    case 2
    have "- (pi / 2) < arctan (y / x)" by (rule arctan_lbound)
    then have "0 < arctan (y / x) + pi" using pi_gt_zero by linarith
    then show ?thesis using 2 y by (simp add: Math_atan2_def)
  next
    case 3
    then show ?thesis using y by (simp add: Math_atan2_def)
  qed
qed

lemma cos_latitude_nonneg: "- 90 \<le> lat \<Longrightarrow> lat \<le> 90 \<Longrightarrow> 0 \<le> cos (lat * pi / 180)"
proof -
  assume a: "- 90 \<le> lat" "lat \<le> 90"
  have "lat * pi \<le> 90 * pi" using a pi_gt_zero by (simp add: mult_right_mono)
  moreover have "- 90 * pi \<le> lat * pi" using a pi_gt_zero by (intro mult_right_mono) simp_all
  ultimately have "- (pi / 2) \<le> lat * pi / 180" "lat * pi / 180 \<le> pi / 2" by simp_all
  then show ?thesis by (rule cos_ge_zero)
qed

lemma haversine_a_nonneg:
  assumes "- 90 \<le> lat1" "lat1 \<le> 90" "- 90 \<le> lat2" "lat2 \<le> 90"
  shows "sin ((lat2 - lat1) * pi / 180 / 2) * sin ((lat2 - lat1) * pi / 180 / 2)
           \<le> haversine_a lat1 lng1 lat2 lng2"
proof -
  have "0 \<le> cos (lat1 * pi / 180) * cos (lat2 * pi / 180)"
    using cos_latitude_nonneg assms by simp
  moreover have "0 \<le> sin ((lng2 - lng1) * pi / 180 / 2) * sin ((lng2 - lng1) * pi / 180 / 2)"
    by simp
  ultimately have "0 \<le> cos (lat1 * pi / 180) * cos (lat2 * pi / 180) *
       (sin ((lng2 - lng1) * pi / 180 / 2) * sin ((lng2 - lng1) * pi / 180 / 2))"
    by (rule mult_nonneg_nonneg)
  then show ?thesis by (simp add: haversine_a_def mult.assoc)
qed

lemma sin_half_squared: "sin (x / 2) * sin (x / 2) = (1 - cos x) / (2::real)"
proof -
  have "cos x = cos (2 * (x / 2))" by simp
  also have "\<dots> = 1 - 2 * (sin (x / 2))\<^sup>2" by (rule cos_double_sin)
  finally show ?thesis by (simp add: power2_eq_square)
qed

lemma half_angle_sum: "(1 - cos (b - a)) / 2 + cos a * cos b = (1 + cos (b + a)) / (2::real)"
  by (simp add: cos_diff cos_add field_simps)

lemma haversine_a_le_1:
  assumes "- 90 \<le> lat1" "lat1 \<le> 90" "- 90 \<le> lat2" "lat2 \<le> 90"
  shows "haversine_a lat1 lng1 lat2 lng2 \<le> 1"
proof -
  let ?p1 = "lat1 * pi / 180" and ?p2 = "lat2 * pi / 180"
  let ?s = "sin ((lng2 - lng1) * pi / 180 / 2) * sin ((lng2 - lng1) * pi / 180 / 2)"
  have cc: "0 \<le> cos ?p1 * cos ?p2" using cos_latitude_nonneg assms by simp
  have "?s = (sin ((lng2 - lng1) * pi / 180 / 2))\<^sup>2" by (simp add: power2_eq_square)
  then have s1: "?s \<le> 1" using abs_sin_le_one[of "(lng2 - lng1) * pi / 180 / 2"]
    by (simp add: abs_square_le_1)
  have "cos ?p1 * cos ?p2 * ?s \<le> cos ?p1 * cos ?p2 * 1"
    using cc s1 by (rule mult_left_mono[rotated])
  then have bound: "haversine_a lat1 lng1 lat2 lng2
      \<le> sin ((lat2 - lat1) * pi / 180 / 2) * sin ((lat2 - lat1) * pi / 180 / 2) + cos ?p1 * cos ?p2"
    by (simp add: haversine_a_def mult.assoc)
  have d: "(lat2 - lat1) * pi / 180 = ?p2 - ?p1" by (simp add: field_simps)
  have "sin ((lat2 - lat1) * pi / 180 / 2) * sin ((lat2 - lat1) * pi / 180 / 2) + cos ?p1 * cos ?p2
      = (1 - cos (?p2 - ?p1)) / 2 + cos ?p1 * cos ?p2"
    unfolding sin_half_squared d ..
  also have "\<dots> = (1 + cos (?p2 + ?p1)) / 2"
    by (rule half_angle_sum)
  also have "\<dots> \<le> 1" using cos_le_one[of "?p2 + ?p1"] by simp
  finally show ?thesis using bound by linarith
qed

text \<open>
  In exact arithmetic the haversine term of two points with latitudes between -90 and 90
  is between 0 and 1, and the distance is a number: a \<open>NaN\<close> of the runtime comes from
  rounding alone.
\<close>

lemma calculateDistance_exact:
  assumes "- 90 \<le> lat1" "lat1 \<le> 90" "- 90 \<le> lat2" "lat2 \<le> 90"
  shows "calculateDistance js_exact lat1 lng1 lat2 lng2 =
     Val (6371 * (2 * Math_atan2 (sqrt (haversine_a lat1 lng1 lat2 lng2))
                                 (sqrt (1 - haversine_a lat1 lng1 lat2 lng2))))"
proof -
  have "0 \<le> sin ((lat2 - lat1) * pi / 180 / 2) * sin ((lat2 - lat1) * pi / 180 / 2)" by simp
  then have a0: "\<not> haversine_a lat1 lng1 lat2 lng2 < 0"
    using haversine_a_nonneg[OF assms, where ?lng1.0 = lng1 and ?lng2.0 = lng2] by linarith
  have a1: "\<not> 1 - haversine_a lat1 lng1 lat2 lng2 < 0"
    using haversine_a_le_1[OF assms, where ?lng1.0 = lng1 and ?lng2.0 = lng2] by linarith
  have "calculateDistance js_exact lat1 lng1 lat2 lng2 =
     (if haversine_a lat1 lng1 lat2 lng2 < 0 \<or> 1 - haversine_a lat1 lng1 lat2 lng2 < 0 then NaN
      else Val (6371 * (2 * Math_atan2 (sqrt (haversine_a lat1 lng1 lat2 lng2))
                                       (sqrt (1 - haversine_a lat1 lng1 lat2 lng2)))))"
    by (simp add: calculateDistance_def js_exact_def haversine_a_def Let_def)
  then show ?thesis using a0 a1 by simp
qed

lemma calculateDistance_exact_self: "calculateDistance js_exact lat lng lat lng = Val 0"
  by (simp add: calculateDistance_def js_exact_def Math_atan2_def)

lemma calculateDistance_exact_pos:
  assumes "- 90 \<le> lat1" "lat1 < lat2" "lat2 \<le> 90"
  shows "\<exists>d. calculateDistance js_exact lat1 lng1 lat2 lng2 = Val d \<and> 0 < d"
proof -
  let ?x = "(lat2 - lat1) * pi / 180 / 2"
  have "0 < (lat2 - lat1) * pi" using assms pi_gt_zero by simp
  then have x0: "0 < ?x" by simp
  have "(lat2 - lat1) * pi \<le> 180 * pi" using assms pi_gt_zero by (intro mult_right_mono) simp_all
  then have "?x \<le> pi / 2" by simp
  then have x1: "?x < pi" using pi_gt_zero by linarith
  have "0 < sin ?x" using x0 x1 by (rule sin_gt_zero)
  then have "0 < sin ?x * sin ?x" by simp
  moreover have "sin ?x * sin ?x \<le> haversine_a lat1 lng1 lat2 lng2"
    using haversine_a_nonneg[where ?lat1.0 = lat1 and ?lat2.0 = lat2 and ?lng1.0 = lng1 and ?lng2.0 = lng2] assms
    by simp
  ultimately have "0 < haversine_a lat1 lng1 lat2 lng2" by linarith
  then have "0 < sqrt (haversine_a lat1 lng1 lat2 lng2)" by simp
  then have "0 < 6371 * (2 * Math_atan2 (sqrt (haversine_a lat1 lng1 lat2 lng2))
                                 (sqrt (1 - haversine_a lat1 lng1 lat2 lng2)))"
    using Math_atan2_pos by simp
  moreover have "calculateDistance js_exact lat1 lng1 lat2 lng2 =
     Val (6371 * (2 * Math_atan2 (sqrt (haversine_a lat1 lng1 lat2 lng2))
                                 (sqrt (1 - haversine_a lat1 lng1 lat2 lng2))))"
    using assms by (intro calculateDistance_exact) simp_all
  ultimately show ?thesis by blast
qed

lemma calculateDistance_exact_nonneg:
  assumes "- 90 \<le> lat1" "lat1 \<le> 90" "- 90 \<le> lat2" "lat2 \<le> 90"
  shows "\<exists>d. calculateDistance js_exact lat1 lng1 lat2 lng2 = Val d \<and> 0 \<le> d"
proof -
  have "0 \<le> sqrt (haversine_a lat1 lng1 lat2 lng2)"
    using haversine_a_nonneg[OF assms, where ?lng1.0 = lng1 and ?lng2.0 = lng2]
    by (smt (verit) real_sqrt_ge_zero zero_le_square)
  then have "0 \<le> 6371 * (2 * Math_atan2 (sqrt (haversine_a lat1 lng1 lat2 lng2))
                                 (sqrt (1 - haversine_a lat1 lng1 lat2 lng2)))"
    using Math_atan2_nonneg by simp
  then show ?thesis using calculateDistance_exact[OF assms] by blast
qed

text \<open>In exact arithmetic the city picked at the coordinate of Mumbai is Mumbai.\<close>

lemma getCityMockData_mumbai:
  "city_name (getCityMockData js_exact 19.0760 72.8777) = ''Mumbai''
   \<and> baseAQI (getCityMockData js_exact 19.0760 72.8777) = 120"
proof -
  obtain d0 where far: "calculateDistance js_exact 19.0760 72.8777 28.6139 77.2090 = Val d0" "0 < d0"
    using calculateDistance_exact_pos[of "19.0760" "28.6139" "72.8777" "77.2090"] by auto
  have here: "calculateDistance js_exact 19.0760 72.8777 19.0760 72.8777 = Val 0"
    by (rule calculateDistance_exact_self)
  have nn: "\<And>la lo. - 90 \<le> la \<Longrightarrow> la \<le> 90 \<Longrightarrow>
      \<not> js_less (calculateDistance js_exact 19.0760 72.8777 la lo) (Val 0)"
  proof -
    fix la lo :: real
    assume "- 90 \<le> la" "la \<le> 90"
    then obtain d where "calculateDistance js_exact 19.0760 72.8777 la lo = Val d" "0 \<le> d"
      using calculateDistance_exact_nonneg[where ?lat1.0 = "19.0760" and ?lat2.0 = la
          and ?lng1.0 = "72.8777" and ?lng2.0 = lo]
      by auto
    then show "\<not> js_less (calculateDistance js_exact 19.0760 72.8777 la lo) (Val 0)"
      by (simp add: js_less_def)
  qed
  show ?thesis
    using far here nn
    by (simp add: getCityMockData_def closest_city_def mock_cities_def Let_def js_less_def)
qed


lemma getCityMockData_exact_nearest:
  assumes "- 90 \<le> lat" and "lat \<le> 90" and "c \<in> set mock_cities"
  shows "\<exists>d dc. calculateDistance js_exact lat lng (city_lat (getCityMockData js_exact lat lng))
                   (city_lng (getCityMockData js_exact lat lng)) = Val d
               \<and> calculateDistance js_exact lat lng (city_lat c) (city_lng c) = Val dc \<and> d \<le> dc"
proof -
  let ?f = "\<lambda>x::mock_city. 6371 * (2 * Math_atan2 (sqrt (haversine_a lat lng (city_lat x) (city_lng x)))
                                 (sqrt (1 - haversine_a lat lng (city_lat x) (city_lng x))))"
  have lats: "\<forall>x \<in> set mock_cities. - 90 \<le> city_lat x \<and> city_lat x \<le> 90"
    by (simp add: mock_cities_def)
  have all: "\<forall>x \<in> set mock_cities. calculateDistance js_exact lat lng (city_lat x) (city_lng x) = Val (?f x)"
    using lats assms(1,2) by (simp add: calculateDistance_exact)
  have le: "?f (getCityMockData js_exact lat lng) \<le> ?f c"
    using getCityMockData_nearest[where f = ?f, OF all assms(3)] .
  have "calculateDistance js_exact lat lng (city_lat (getCityMockData js_exact lat lng))
          (city_lng (getCityMockData js_exact lat lng)) = Val (?f (getCityMockData js_exact lat lng))"
    using all getCityMockData_in by blast
  moreover have "calculateDistance js_exact lat lng (city_lat c) (city_lng c) = Val (?f c)"
    using all assms(3) by blast
  ultimately show ?thesis using le by blast
qed

text \<open>
  The distance is \<open>NaN\<close> when the runtime's operations, one after the other, give a
  haversine term \<open>a\<close> for which \<open>1 - a\<close> is negative.
\<close>

lemma calculateDistance_NaN:
  assumes "js_fl M (lat2 - lat1) = t1" and "js_fl M (t1 * js_PI M) = t2" and "js_fl M (t2 / 180) = dLat"
    and "js_fl M (lng2 - lng1) = u1" and "js_fl M (u1 * js_PI M) = u2" and "js_fl M (u2 / 180) = dLng"
    and "js_fl M (dLat / 2) = h1" and "js_fl M (dLng / 2) = h2"
    and "js_sin M h1 = s1" and "js_sin M h2 = s2" and "js_fl M (s1 * s1) = ss1"
    and "js_fl M (lat1 * js_PI M) = r1" and "js_fl M (r1 / 180) = r1'"
    and "js_fl M (lat2 * js_PI M) = r2" and "js_fl M (r2 / 180) = r2'"
    and "js_cos M r1' = c1" and "js_cos M r2' = c2"
    and "js_fl M (c1 * c2) = q1" and "js_fl M (q1 * s2) = q2" and "js_fl M (q2 * s2) = q3"
    and "js_fl M (ss1 + q3) = a" and "js_fl M (1 - a) < 0"
  shows "calculateDistance M lat1 lng1 lat2 lng2 = NaN"
  using assms by (simp add: calculateDistance_def Let_def)

section \<open>The synthetic reading where a distance is not a number\<close>

text \<open>
  Claim C9, at inputs where it fails. The coordinate is one for which the runtime's
  \<open>calculateDistance\<close> to New Delhi, the first reference city, is \<open>NaN\<close>: the
  haversine term rounds to a double above 1, and \<open>Math.sqrt(1 - a)\<close> is \<open>NaN\<close>. The
  comparison \<open>distance < minDistance\<close> is then false for every city, the loop keeps
  \<open>cities[0]\<close>, and the reading is New Delhi's: its AQI is 160 plus the noise, from 160
  to 199, whatever the distances of the other cities are. It is so at latitude
  -28.613900231 and longitude -102.7910004, where the nearest reference city is Chennai,
  with the baseline 110.
\<close>

theorem getMockAQIData_first_city_when_NaN:
  assumes "calculateDistance M lat lng 28.6139 77.2090 = NaN"
    and "0 \<le> js_fl M (rnd 0 * 40)" and "js_fl M (rnd 0 * 40) < 40"
  shows "city_name (getCityMockData M lat lng) = ''New Delhi''
       \<and> baseAQI (getCityMockData M lat lng) = 180
       \<and> loc_name (rd_location (getMockAQIData M lat lng isError now rnd)) = ''New Delhi''
       \<and> aqi_value (rd_aqi (getMockAQIData M lat lng isError now rnd))
           = 160 + of_int \<lfloor>js_fl M (rnd 0 * 40)\<rfloor>
       \<and> 160 \<le> aqi_value (rd_aqi (getMockAQIData M lat lng isError now rnd))
       \<and> aqi_value (rd_aqi (getMockAQIData M lat lng isError now rnd)) \<le> 199"
proof -
  have first: "city_lat (mock_cities ! 0) = 28.6139" "city_lng (mock_cities ! 0) = 77.2090"
    "city_name (mock_cities ! 0) = ''New Delhi''" "baseAQI (mock_cities ! 0) = 180"
    by (simp_all add: mock_cities_def)
  have city: "getCityMockData M lat lng = mock_cities ! 0"
    using assms(1) by (simp add: getCityMockData_def closest_city_def first closest_loop_NaN)
  let ?n = "\<lfloor>js_fl M (rnd 0 * 40)\<rfloor>"
  have n: "0 \<le> ?n" "?n \<le> 39" using noise_bounds[OF assms(2,3)] by auto
  have clamp: "max 1 (min 500 (180 + ?n - 20)) = 160 + ?n" using n by linarith
  have v: "aqi_value (rd_aqi (getMockAQIData M lat lng isError now rnd)) = of_int (160 + ?n)"
    using clamp by (simp add: getMockAQIData_def Let_def city first)
  have name: "loc_name (rd_location (getMockAQIData M lat lng isError now rnd)) = ''New Delhi''"
    by (simp add: getMockAQIData_def Let_def city first)
  have r1: "(160::real) \<le> of_int (160 + ?n)" using n by linarith
  have r2: "of_int (160 + ?n) \<le> (199::real)" using n by linarith
  show ?thesis unfolding v using city first name r1 r2 by simp
qed

theorem getMockAQIData_first_city_when_NaN_witness:
  "calculateDistance js_at_antipode (- 28.613900231) (- 102.7910004) 28.6139 77.2090 = NaN
   \<and> loc_name (rd_location (getMockAQIData js_at_antipode (- 28.613900231) (- 102.7910004) True 0 (\<lambda>k. 1 / 2)))
       = ''New Delhi''
   \<and> aqi_value (rd_aqi (getMockAQIData js_at_antipode (- 28.613900231) (- 102.7910004) True 0 (\<lambda>k. 1 / 2)))
       = 180
   \<and> source (getMockAQIData js_at_antipode (- 28.613900231) (- 102.7910004) True 0 (\<lambda>k. 1 / 2))
       = ''Mock-Fallback''"
proof -
  have nan: "calculateDistance js_at_antipode (- 28.613900231) (- 102.7910004) 28.6139 77.2090 = NaN"
    by (rule calculateDistance_NaN[where
          ?t1.0 = "57.227800231" and ?t2.0 = "179.78643678681388" and dLat = "0.9988135377045215"
          and ?u1.0 = "180.0000004" and ?u2.0 = "565.4866789027998" and dLng = "3.14159266057111"
          and ?h1.0 = "0.49940676885226076" and ?h2.0 = "1.570796330285555"
          and ?s1.0 = "0.4789048449638315" and ?s2.0 = 1 and ?ss1.0 = "0.2293498505298315"
          and ?r1.0 = "- 89.89321875626088" and r1' = "- 0.49940677086811597"
          and ?r2.0 = "89.89321803055299" and r2' = "0.4994067668364055"
          and ?c1.0 = "0.877866816649985" and ?c2.0 = "0.8778668185807906"
          and ?q1.0 = "0.7706501494701686" and ?q2.0 = "0.7706501494701686"
          and ?q3.0 = "0.7706501494701686" and a = "1.0000000000000002"])
      (simp_all add: js_at_antipode_def)
  have fl: "js_fl js_at_antipode ((\<lambda>k::nat. 1 / 2) 0 * 40) = 20"
    by (simp add: js_at_antipode_def)
  have noise: "0 \<le> js_fl js_at_antipode ((\<lambda>k::nat. 1 / 2) 0 * 40)"
    "js_fl js_at_antipode ((\<lambda>k::nat. 1 / 2) 0 * 40) < 40"
    unfolding fl by simp_all
  have tag: "source (getMockAQIData js_at_antipode (- 28.613900231) (- 102.7910004) True 0 (\<lambda>k. 1 / 2))
       = ''Mock-Fallback''"
    by (simp add: getMockAQIData_def Let_def)
  show ?thesis
    using nan tag fl
      getMockAQIData_first_city_when_NaN[OF nan noise, where isError = True and now = 0]
    by simp
qed

section \<open>Properties of the fallback chain\<close>

text \<open>
  Claim C3, as stated, at an input: the service has the flag and the OpenWeatherMap key
  but no IQAir key, OpenWeatherMap fails and IQAir would answer with success. The guard on
  the IQAir key skips the secondary adapter: only OpenWeatherMap is called and the reading
  is the degraded synthetic one, not the secondary's.
\<close>

theorem fallback_needs_secondary_key:
  "fetchFromOpenWeatherMap js_exact world_primary_down 19.0760 72.8777 = None
   \<and> fetchFromIQAir world_primary_down 19.0760 72.8777 \<noteq> None
   \<and> source (fst (fetchRealTimeAQI js_exact cfg_no_iqair_key world_primary_down 19.0760 72.8777 0 (\<lambda>k. 0)))
       = ''Mock-Fallback''
   \<and> snd (fetchRealTimeAQI js_exact cfg_no_iqair_key world_primary_down 19.0760 72.8777 0 (\<lambda>k. 0))
       = [OpenWeatherMap]"
  by (simp add: fetchRealTimeAQI_def fetchFromOpenWeatherMap_def fetchFromIQAir_def
      world_primary_down_def cfg_no_iqair_key_def sample_iqair_body_def falsy_def
      getMockAQIData_def Let_def)

text \<open>
  Claim C3, amended. Without the real-data flag, or with the OpenWeatherMap key missing,
  empty or the placeholder, the reading is the synthetic one tagged Mock-Development, not
  real, and no provider is called. Otherwise, when OpenWeatherMap fails, the IQAir key is
  configured (present, not empty, not the placeholder) and IQAir succeeds, the reading is
  IQAir's, with source IQAir. When OpenWeatherMap fails and IQAir is not configured or
  fails, the reading is synthetic with the tag Mock-Fallback and \<open>isRealData\<close> false.
  When OpenWeatherMap succeeds, the reading is OpenWeatherMap's and IQAir is not called.
\<close>

theorem fetchRealTimeAQI_fallback_order:
  "(\<not> useRealData cfg \<or> falsy (openWeatherApiKey cfg)
      \<or> openWeatherApiKey cfg = Some ''placeholder_openweather_key'' \<longrightarrow>
      fst (fetchRealTimeAQI M cfg w lat lng now rnd) =
        getMockAQIData M lat lng False now rnd
      \<and> snd (fetchRealTimeAQI M cfg w lat lng now rnd) = []
      \<and> source (fst (fetchRealTimeAQI M cfg w lat lng now rnd)) = ''Mock-Development''
      \<and> \<not> isRealData (fst (fetchRealTimeAQI M cfg w lat lng now rnd)))
 \<and> (useRealData cfg \<and> \<not> falsy (openWeatherApiKey cfg)
      \<and> openWeatherApiKey cfg \<noteq> Some ''placeholder_openweather_key''
      \<and> fetchFromOpenWeatherMap M w lat lng = None
      \<and> \<not> falsy (iqAirApiKey cfg) \<and> iqAirApiKey cfg \<noteq> Some ''placeholder_iqair_key''
      \<and> fetchFromIQAir w lat lng \<noteq> None \<longrightarrow>
      Some (fst (fetchRealTimeAQI M cfg w lat lng now rnd)) = fetchFromIQAir w lat lng
      \<and> source (fst (fetchRealTimeAQI M cfg w lat lng now rnd)) = ''IQAir''
      \<and> isRealData (fst (fetchRealTimeAQI M cfg w lat lng now rnd))
      \<and> snd (fetchRealTimeAQI M cfg w lat lng now rnd) = [OpenWeatherMap, IQAir])
 \<and> (useRealData cfg \<and> \<not> falsy (openWeatherApiKey cfg)
      \<and> openWeatherApiKey cfg \<noteq> Some ''placeholder_openweather_key''
      \<and> fetchFromOpenWeatherMap M w lat lng = None
      \<and> (falsy (iqAirApiKey cfg) \<or> iqAirApiKey cfg = Some ''placeholder_iqair_key''
          \<or> fetchFromIQAir w lat lng = None) \<longrightarrow>
      source (fst (fetchRealTimeAQI M cfg w lat lng now rnd)) = ''Mock-Fallback''
      \<and> stationType (rd_location (fst (fetchRealTimeAQI M cfg w lat lng now rnd))) = ''Mock-Fallback''
      \<and> \<not> isRealData (fst (fetchRealTimeAQI M cfg w lat lng now rnd)))
 \<and> (useRealData cfg \<and> \<not> falsy (openWeatherApiKey cfg)
      \<and> openWeatherApiKey cfg \<noteq> Some ''placeholder_openweather_key''
      \<and> fetchFromOpenWeatherMap M w lat lng \<noteq> None \<longrightarrow>
      Some (fst (fetchRealTimeAQI M cfg w lat lng now rnd)) = fetchFromOpenWeatherMap M w lat lng
      \<and> source (fst (fetchRealTimeAQI M cfg w lat lng now rnd)) = ''OpenWeatherMap''
      \<and> isRealData (fst (fetchRealTimeAQI M cfg w lat lng now rnd))
      \<and> snd (fetchRealTimeAQI M cfg w lat lng now rnd) = [OpenWeatherMap])"
proof -
  have owm: "\<And>r. fetchFromOpenWeatherMap M w lat lng = Some r \<Longrightarrow> source r = ''OpenWeatherMap'' \<and> isRealData r"
    by (auto simp: fetchFromOpenWeatherMap_def formatOpenWeatherMapResponse_def Let_def
        split: http.splits option.splits list.splits)
  have iq: "\<And>r. fetchFromIQAir w lat lng = Some r \<Longrightarrow> source r = ''IQAir'' \<and> isRealData r"
    by (auto simp: fetchFromIQAir_def formatIQAirResponse_def Let_def
        split: http.splits option.splits if_splits)
  have mock: "\<And>e. source (getMockAQIData M lat lng e now rnd) = (if e then ''Mock-Fallback'' else ''Mock-Development'')
      \<and> stationType (rd_location (getMockAQIData M lat lng e now rnd))
           = (if e then ''Mock-Fallback'' else ''Mock-Development'')
      \<and> \<not> isRealData (getMockAQIData M lat lng e now rnd)"
    by (simp add: getMockAQIData_def Let_def)
  show ?thesis
    using owm iq mock by (auto simp: fetchRealTimeAQI_def split: option.splits)
qed

theorem fetchRealTimeAQI_fallback_order_witness:
  "source (fst (fetchRealTimeAQI js_exact cfg_offline world_up 19.0760 72.8777 0 (\<lambda>k. 0))) = ''Mock-Development''
   \<and> snd (fetchRealTimeAQI js_exact cfg_offline world_up 19.0760 72.8777 0 (\<lambda>k. 0)) = []
   \<and> source (fst (fetchRealTimeAQI js_exact cfg_both_keys world_primary_down 19.0760 72.8777 0 (\<lambda>k. 0))) = ''IQAir''
   \<and> source (fst (fetchRealTimeAQI js_exact cfg_both_keys world_all_down 19.0760 72.8777 0 (\<lambda>k. 0))) = ''Mock-Fallback''
   \<and> \<not> isRealData (fst (fetchRealTimeAQI js_exact cfg_both_keys world_all_down 19.0760 72.8777 0 (\<lambda>k. 0)))
   \<and> source (fst (fetchRealTimeAQI js_exact cfg_both_keys world_up 19.0760 72.8777 0 (\<lambda>k. 0))) = ''OpenWeatherMap''
   \<and> snd (fetchRealTimeAQI js_exact cfg_both_keys world_up 19.0760 72.8777 0 (\<lambda>k. 0)) = [OpenWeatherMap]"
proof -
  have offline: "\<not> useRealData cfg_offline" by (simp add: cfg_offline_def)
  have online: "useRealData cfg_both_keys \<and> \<not> falsy (openWeatherApiKey cfg_both_keys)
      \<and> openWeatherApiKey cfg_both_keys \<noteq> Some ''placeholder_openweather_key''
      \<and> \<not> falsy (iqAirApiKey cfg_both_keys) \<and> iqAirApiKey cfg_both_keys \<noteq> Some ''placeholder_iqair_key''"
    by (simp add: cfg_both_keys_def falsy_def)
  have down1: "fetchFromOpenWeatherMap js_exact world_primary_down 19.0760 72.8777 = None
      \<and> fetchFromIQAir world_primary_down 19.0760 72.8777 \<noteq> None"
    by (simp add: fetchFromOpenWeatherMap_def fetchFromIQAir_def world_primary_down_def
        sample_iqair_body_def)
  have down2: "fetchFromOpenWeatherMap js_exact world_all_down 19.0760 72.8777 = None
      \<and> fetchFromIQAir world_all_down 19.0760 72.8777 = None"
    by (simp add: fetchFromOpenWeatherMap_def fetchFromIQAir_def world_all_down_def)
  have up: "fetchFromOpenWeatherMap js_exact world_up 19.0760 72.8777 \<noteq> None"
    by (simp add: fetchFromOpenWeatherMap_def world_up_def)
  have a: "source (fst (fetchRealTimeAQI js_exact cfg_offline world_up 19.0760 72.8777 0 (\<lambda>k. 0))) = ''Mock-Development''
      \<and> snd (fetchRealTimeAQI js_exact cfg_offline world_up 19.0760 72.8777 0 (\<lambda>k. 0)) = []"
    using offline
      fetchRealTimeAQI_fallback_order[where M = js_exact and cfg = cfg_offline and w = world_up
        and lat = "19.0760" and lng = "72.8777" and now = 0 and rnd = "\<lambda>k. 0"]
    by blast
  have b: "source (fst (fetchRealTimeAQI js_exact cfg_both_keys world_primary_down 19.0760 72.8777 0 (\<lambda>k. 0))) = ''IQAir''"
    using online down1
      fetchRealTimeAQI_fallback_order[where M = js_exact and cfg = cfg_both_keys and w = world_primary_down
        and lat = "19.0760" and lng = "72.8777" and now = 0 and rnd = "\<lambda>k. 0"]
    by blast
  have c: "source (fst (fetchRealTimeAQI js_exact cfg_both_keys world_all_down 19.0760 72.8777 0 (\<lambda>k. 0))) = ''Mock-Fallback''
      \<and> \<not> isRealData (fst (fetchRealTimeAQI js_exact cfg_both_keys world_all_down 19.0760 72.8777 0 (\<lambda>k. 0)))"
    using online down2
      fetchRealTimeAQI_fallback_order[where M = js_exact and cfg = cfg_both_keys and w = world_all_down
        and lat = "19.0760" and lng = "72.8777" and now = 0 and rnd = "\<lambda>k. 0"]
    by blast
  have d: "source (fst (fetchRealTimeAQI js_exact cfg_both_keys world_up 19.0760 72.8777 0 (\<lambda>k. 0))) = ''OpenWeatherMap''
      \<and> snd (fetchRealTimeAQI js_exact cfg_both_keys world_up 19.0760 72.8777 0 (\<lambda>k. 0)) = [OpenWeatherMap]"
    using online up
      fetchRealTimeAQI_fallback_order[where M = js_exact and cfg = cfg_both_keys and w = world_up
        and lat = "19.0760" and lng = "72.8777" and now = 0 and rnd = "\<lambda>k. 0"]
    by blast
  show ?thesis using a b c d by blast
qed

section \<open>Properties of the forecast\<close>

lemma mock_points_hoursAhead: "map hoursAhead (map (mock_forecast_point b h now rnd) xs) = xs"
  by (induction xs) (simp_all add: mock_forecast_point_def Let_def)

lemma mock_points_confidence:
  "map confidence (map (mock_forecast_point b h now rnd) xs)
     = map (\<lambda>i. 0.75 - (of_int i / of_int h) * 0.2) xs"
  by (induction xs) (simp_all add: mock_forecast_point_def Let_def)

lemma nonincreasing_antimono_map:
  assumes "sorted xs" and "\<And>x y. x \<le> y \<Longrightarrow> g y \<le> g x"
  shows "nonincreasing (map g xs)"
proof -
  have "sorted_wrt (\<lambda>x y. g y \<le> g x) xs"
    using assms(1) by (rule sorted_wrt_mono_rel[rotated]) (simp add: assms(2))
  then show ?thesis
    by (simp add: nonincreasing_def sorted_wrt_rev sorted_wrt_map)
qed

lemma linear_confidence_antimono:
  fixes h :: int
  assumes "0 < h" and "x \<le> y"
  shows "0.75 - (of_int y / of_int h) * 0.2 \<le> (0.75 - (of_int x / of_int h) * 0.2 :: real)"
proof -
  have "(of_int x :: real) / of_int h \<le> of_int y / of_int h"
    using assms by (simp add: divide_right_mono)
  then show ?thesis by simp
qed

lemma mock_series_as_claimed:
  assumes "1 \<le> h"
  shows "forecast_as_claimed h (forecast (getMockForecastData M lat lng h now rnd))"
proof -
  have len: "int (length [1..h]) = h" using assms by simp
  have "nonincreasing (map (\<lambda>i. 0.75 - (of_int i / of_int h) * 0.2 :: real) [1..h])"
    using assms by (intro nonincreasing_antimono_map linear_confidence_antimono) simp_all
  then show ?thesis
    using len
    by (simp add: forecast_as_claimed_def getMockForecastData_def Let_def
        mock_points_hoursAhead mock_points_confidence del: map_map)
qed

lemma enumerate_hoursAhead:
  "map hoursAhead (map (real_forecast_point M) (enumerate n xs)) = [int n + 1..int n + int (length xs)]"
proof (induction xs arbitrary: n)
  case Nil
  then show ?case by simp
next
  case (Cons x xs)
  have "[int n + 1..int n + int (length (x # xs))] = (int n + 1) # [int (Suc n) + 1..int (Suc n) + int (length xs)]"
    by (subst upto_rec1) (simp_all add: add.commute add.left_commute)
  then show ?case using Cons.IH[of "Suc n"] by (simp add: real_forecast_point_def Let_def)
qed

lemma enumerate_confidence:
  "map confidence (map (real_forecast_point M) (enumerate n xs)) = replicate (length xs) 0.85"
  by (induction xs arbitrary: n) (simp_all add: real_forecast_point_def Let_def)

lemma nonincreasing_replicate: "nonincreasing (replicate k c)"
  by (simp add: nonincreasing_def sorted_replicate)

lemma slice0_length:
  "0 \<le> e \<Longrightarrow> e \<le> int (length xs) \<Longrightarrow> int (length (slice0 xs e)) = e"
  by (simp add: slice0_def)

lemma real_series_as_claimed:
  assumes "1 \<le> h" and "items \<noteq> []"
  shows "forecast_as_claimed (min h (int (length items)))
           (map (real_forecast_point M) (enumerate 0 (slice0 items (min h (int (length items))))))
       \<and> map confidence (map (real_forecast_point M) (enumerate 0 (slice0 items (min h (int (length items))))))
           = replicate (nat (min h (int (length items)))) 0.85"
proof -
  let ?m = "min h (int (length items))"
  have m: "0 \<le> ?m" "?m \<le> int (length items)" using assms by auto
  have len: "int (length (slice0 items ?m)) = ?m" using slice0_length[OF m] .
  then have len': "length (slice0 items ?m) = nat ?m" by linarith
  show ?thesis
    using len len' enumerate_hoursAhead[where n = 0 and xs = "slice0 items ?m" and M = M]
    by (simp add: forecast_as_claimed_def enumerate_confidence nonincreasing_replicate del: map_map)
qed

text \<open>
  Claim C4, as stated, at an input: with the flag and the key set and a provider series of
  two entries, a request for 48 hours returns two points, not 48.
\<close>

theorem forecast_short_series:
  "length (forecast (fetchForecastData js_exact cfg_both_keys world_up 19.0760 72.8777 48 0 (\<lambda>k. 0))) = 2
   \<and> \<not> forecast_as_claimed 48 (forecast (fetchForecastData js_exact cfg_both_keys world_up 19.0760 72.8777 48 0 (\<lambda>k. 0)))"
  by (simp add: fetchForecastData_def cfg_both_keys_def world_up_def falsy_def Let_def slice0_def
      forecast_as_claimed_def)

text \<open>
  Claim C4, amended. For a horizon \<open>h\<close> from 1 to 96: on the synthetic path (no flag, no
  key, or a failed or empty provider answer) the series has exactly \<open>h\<close> points, hours
  ahead 1 to \<open>h\<close>, and the confidence \<open>0.75 - (i / h) * 0.2\<close> at hour \<open>i\<close>, which
  falls linearly; on the provider path, with \<open>n \<ge> 1\<close> entries in the provider's series,
  it has \<open>min h n\<close> points, hours ahead 1 to \<open>min h n\<close>, each with confidence 0.85.
\<close>

theorem forecast_series_shape:
  assumes "1 \<le> h" and "h \<le> 96"
  shows
   "(\<not> useRealData cfg \<or> falsy (openWeatherApiKey cfg)
       \<or> owm_air_pollution_forecast w \<in> {Failed, Response None, Response (Some [])} \<longrightarrow>
       forecast_as_claimed h (forecast (fetchForecastData M cfg w lat lng h now rnd))
       \<and> map confidence (forecast (fetchForecastData M cfg w lat lng h now rnd))
           = map (\<lambda>i. 0.75 - (of_int i / of_int h) * 0.2) [1..h]
       \<and> \<not> fc_isRealData (fetchForecastData M cfg w lat lng h now rnd))
  \<and> (useRealData cfg \<and> \<not> falsy (openWeatherApiKey cfg)
       \<and> owm_air_pollution_forecast w = Response (Some items) \<and> items \<noteq> [] \<longrightarrow>
       forecast_as_claimed (min h (int (length items)))
         (forecast (fetchForecastData M cfg w lat lng h now rnd))
       \<and> map confidence (forecast (fetchForecastData M cfg w lat lng h now rnd))
           = replicate (nat (min h (int (length items)))) 0.85
       \<and> fc_isRealData (fetchForecastData M cfg w lat lng h now rnd))"
proof (intro conjI impI)
  assume off: "\<not> useRealData cfg \<or> falsy (openWeatherApiKey cfg)
       \<or> owm_air_pollution_forecast w \<in> {Failed, Response None, Response (Some [])}"
  then have eq: "fetchForecastData M cfg w lat lng h now rnd = getMockForecastData M lat lng h now rnd"
    by (auto simp: fetchForecastData_def)
  show "forecast_as_claimed h (forecast (fetchForecastData M cfg w lat lng h now rnd))"
    unfolding eq using mock_series_as_claimed[OF assms(1)] .
  show "map confidence (forecast (fetchForecastData M cfg w lat lng h now rnd))
           = map (\<lambda>i. 0.75 - (of_int i / of_int h) * 0.2) [1..h]"
    unfolding eq by (simp add: getMockForecastData_def Let_def mock_points_confidence del: map_map)
  show "\<not> fc_isRealData (fetchForecastData M cfg w lat lng h now rnd)"
    unfolding eq by (simp add: getMockForecastData_def Let_def)
next
  assume on: "useRealData cfg \<and> \<not> falsy (openWeatherApiKey cfg)
       \<and> owm_air_pollution_forecast w = Response (Some items) \<and> items \<noteq> []"
  then obtain item rest where items: "items = item # rest" by (cases items) auto
  have eq: "forecast (fetchForecastData M cfg w lat lng h now rnd)
      = map (real_forecast_point M) (enumerate 0 (slice0 items (min h (int (length items)))))"
    using on items by (simp add: fetchForecastData_def Let_def)
  have ne: "items \<noteq> []" using on by simp
  show "forecast_as_claimed (min h (int (length items)))
         (forecast (fetchForecastData M cfg w lat lng h now rnd))"
    unfolding eq using real_series_as_claimed[OF assms(1) ne] by simp
  show "map confidence (forecast (fetchForecastData M cfg w lat lng h now rnd))
           = replicate (nat (min h (int (length items)))) 0.85"
    unfolding eq using real_series_as_claimed[OF assms(1) ne] by simp
  show "fc_isRealData (fetchForecastData M cfg w lat lng h now rnd)"
    using on items by (simp add: fetchForecastData_def Let_def)
qed

theorem forecast_series_shape_witness:
  "forecast_as_claimed 48 (forecast (fetchForecastData js_exact cfg_offline world_up 19.0760 72.8777 48 0 (\<lambda>k. 0)))
   \<and> length (forecast (fetchForecastData js_exact cfg_offline world_up 19.0760 72.8777 48 0 (\<lambda>k. 0))) = 48
   \<and> forecast_as_claimed 1 (forecast (fetchForecastData js_exact cfg_both_keys world_up 19.0760 72.8777 1 0 (\<lambda>k. 0)))
   \<and> forecast_as_claimed 2 (forecast (fetchForecastData js_exact cfg_both_keys world_up 19.0760 72.8777 48 0 (\<lambda>k. 0)))"
proof -
  have offline: "\<not> useRealData cfg_offline" by (simp add: cfg_offline_def)
  have online: "useRealData cfg_both_keys \<and> \<not> falsy (openWeatherApiKey cfg_both_keys)
      \<and> owm_air_pollution_forecast world_up = Response (Some [sample_item, sample_item])
      \<and> [sample_item, sample_item] \<noteq> []"
    by (simp add: cfg_both_keys_def falsy_def world_up_def)
  have a: "forecast_as_claimed 48 (forecast (fetchForecastData js_exact cfg_offline world_up 19.0760 72.8777 48 0 (\<lambda>k. 0)))"
    using offline forecast_series_shape[where M = js_exact and h = 48 and cfg = cfg_offline and w = world_up and lat = "19.0760"
        and lng = "72.8777" and now = 0 and rnd = "\<lambda>k. 0"]
    by simp
  then have a': "length (forecast (fetchForecastData js_exact cfg_offline world_up 19.0760 72.8777 48 0 (\<lambda>k. 0))) = 48"
    by (simp add: forecast_as_claimed_def)
  have b: "forecast_as_claimed 1 (forecast (fetchForecastData js_exact cfg_both_keys world_up 19.0760 72.8777 1 0 (\<lambda>k. 0)))"
    using online forecast_series_shape[where M = js_exact and h = 1 and cfg = cfg_both_keys and w = world_up and lat = "19.0760"
        and lng = "72.8777" and now = 0 and rnd = "\<lambda>k. 0" and items = "[sample_item, sample_item]"]
    by simp
  have c: "forecast_as_claimed 2 (forecast (fetchForecastData js_exact cfg_both_keys world_up 19.0760 72.8777 48 0 (\<lambda>k. 0)))"
    using online forecast_series_shape[where M = js_exact and h = 48 and cfg = cfg_both_keys and w = world_up and lat = "19.0760"
        and lng = "72.8777" and now = 0 and rnd = "\<lambda>k. 0" and items = "[sample_item, sample_item]"]
    by simp
  show ?thesis using a a' b c by simp
qed

section \<open>Properties of the current-AQI route\<close>

text \<open>
  Claim C6, as stated, at an input: latitude 28.6139 and longitude 77.2090 are valid, the
  radius is 150; the handler answers 400 with the radius message. An invalid coordinate is
  not the only error the caller gets.
\<close>

theorem radius_rejected_too:
  "http_status (fst (get_aqi js_exact pg_exact None req_radius_150 empty_db 0 (\<lambda>k. 0))) = 400
   \<and> message (fst (get_aqi js_exact pg_exact None req_radius_150 empty_db 0 (\<lambda>k. 0)))
       = ''Invalid radius. Must be between 0 and 100 km''
   \<and> \<not> invalid_latitude (q_lat req_radius_150) \<and> \<not> invalid_longitude (q_lng req_radius_150)"
  by (simp add: get_aqi_def req_radius_150_def parseFloat_def falsy_param_def bad_request_def
      invalid_latitude_def invalid_longitude_def)

lemma get_aqi_rejected:
  "rejected req \<Longrightarrow>
     http_status (fst (get_aqi M P key req db now rnd)) = 400 \<and> \<not> success (fst (get_aqi M P key req db now rnd))
     \<and> snd (get_aqi M P key req db now rnd) = (db, [])"
  by (auto simp: rejected_def get_aqi_def bad_request_def invalid_latitude_def invalid_longitude_def
      invalid_radius_def Let_def split: option.splits)

lemma get_aqi_accepted:
  "\<not> rejected req \<Longrightarrow>
     http_status (fst (get_aqi M P key req db now rnd)) = 200 \<and> success (fst (get_aqi M P key req db now rnd))
     \<and> payload (fst (get_aqi M P key req db now rnd)) \<noteq> None
     \<and> CacheLookup \<in> set (snd (snd (get_aqi M P key req db now rnd)))"
  by (auto simp: rejected_def get_aqi_def bad_request_def invalid_latitude_def invalid_longitude_def
      invalid_radius_def Let_def split: option.splits)

text \<open>
  Claim C6, amended. A request whose latitude is not a number in \<open>[-90, 90]\<close> or whose
  longitude is not a number in \<open>[-180, 180]\<close> is answered 400 before any cache lookup or
  provider call, and the database is left as it was. The same holds for every rejected
  request, the other rejections being a missing latitude or longitude and a radius outside
  \<open>(0, 100]\<close>. Every request that is not rejected is answered 200 with a reading.
\<close>

theorem invalid_coordinates_rejected_first:
  "(invalid_latitude (q_lat req) \<or> invalid_longitude (q_lng req) \<longrightarrow>
      http_status (fst (get_aqi M P key req db now rnd)) = 400
      \<and> \<not> success (fst (get_aqi M P key req db now rnd))
      \<and> snd (get_aqi M P key req db now rnd) = (db, []))
   \<and> (rejected req \<longrightarrow>
      http_status (fst (get_aqi M P key req db now rnd)) = 400
      \<and> snd (get_aqi M P key req db now rnd) = (db, []))
   \<and> (\<not> rejected req \<longrightarrow>
      http_status (fst (get_aqi M P key req db now rnd)) = 200
      \<and> success (fst (get_aqi M P key req db now rnd))
      \<and> payload (fst (get_aqi M P key req db now rnd)) \<noteq> None)"
  using get_aqi_rejected[of req M P key db now rnd] get_aqi_accepted[of req M P key db now rnd]
  by (auto simp: rejected_def)

theorem invalid_coordinates_rejected_first_witness:
  "http_status (fst (get_aqi js_exact pg_exact None req_lat_95 empty_db 0 (\<lambda>k. 0))) = 400
   \<and> snd (get_aqi js_exact pg_exact None req_lat_95 empty_db 0 (\<lambda>k. 0)) = (empty_db, [])
   \<and> http_status (fst (get_aqi js_exact pg_exact None req_delhi empty_db 0 (\<lambda>k. 0))) = 200"
proof -
  have a: "invalid_latitude (q_lat req_lat_95)"
    by (simp add: invalid_latitude_def req_lat_95_def parseFloat_def)
  have b: "\<not> rejected req_delhi"
    by (simp add: rejected_def invalid_latitude_def invalid_longitude_def invalid_radius_def
        falsy_param_def req_delhi_def parseFloat_def)
  show ?thesis
    using a b invalid_coordinates_rejected_first[where M = js_exact and P = pg_exact and req = req_lat_95
        and key = None and db = empty_db and now = 0 and rnd = "\<lambda>k. 0"]
      invalid_coordinates_rejected_first[where M = js_exact and P = pg_exact and req = req_delhi
        and key = None and db = empty_db and now = 0 and rnd = "\<lambda>k. 0"]
    by blast
qed

section \<open>Properties of the freshness cache\<close>

lemma first_min_in: "first_min key xs = Some y \<Longrightarrow> y \<in> set xs"
  by (induction xs arbitrary: y) (auto split: option.splits if_splits)

lemma first_min_find:
  "\<forall>x \<in> set xs. P x \<longrightarrow> key x = m \<Longrightarrow> \<forall>x \<in> set xs. \<not> P x \<longrightarrow> m < key x \<Longrightarrow>
   \<exists>x \<in> set xs. P x \<Longrightarrow> first_min key xs = find P xs"
proof (induction xs)
  case Nil
  then show ?case by simp
next
  case (Cons a xs)
  have all_ge: "\<And>y. y \<in> set xs \<Longrightarrow> m \<le> key y"
    using Cons.prems(1,2) by (metis list.set_intros(2) order_le_less)
  show ?case
  proof (cases "P a")
    case True
    then have ka: "key a = m" using Cons.prems(1) by simp
    show ?thesis
    proof (cases "first_min key xs")
      case None
      then show ?thesis using True by simp
    next
      case (Some y)
      then have "m \<le> key y" using first_min_in all_ge by metis
      then show ?thesis using True Some ka by simp
    qed
  next
    case False
    then have ex: "\<exists>x \<in> set xs. P x" using Cons.prems(3) by auto
    have ih: "first_min key xs = find P xs" using Cons.IH Cons.prems(1,2) ex by simp
    obtain y where y: "find P xs = Some y" using ex by (metis find_None_iff2 not_Some_eq)
    then have "P y" "y \<in> set xs" by (auto simp: find_Some_iff)
    then have "key y = m" using Cons.prems(1) by simp
    moreover have "m < key a" using False Cons.prems(2) by simp
    ultimately have "\<not> key a \<le> key y" by (simp add: not_le)
    then show ?thesis using False ih y by simp
  qed
qed

lemma first_min_strict:
  "x \<in> set xs \<Longrightarrow> \<forall>y \<in> set xs. y \<noteq> x \<longrightarrow> key x < key y \<Longrightarrow> first_min key xs = Some x"
proof (induction xs)
  case Nil
  then show ?case by simp
next
  case (Cons a xs)
  show ?case
  proof (cases "a = x")
    case True
    show ?thesis
    proof (cases "first_min key xs")
      case None
      then show ?thesis using True by simp
    next
      case (Some y)
      then have "y \<in> set xs" by (rule first_min_in)
      then have "key x \<le> key y" using Cons.prems(2) by (cases "y = x") auto
      then show ?thesis using True Some by simp
    qed
  next
    case False
    then have "x \<in> set xs" using Cons.prems(1) by simp
    then have "first_min key xs = Some x" using Cons.IH Cons.prems(2) by simp
    moreover have "\<not> key a \<le> key x" using False Cons.prems(2) by (simp add: not_le)
    ultimately show ?thesis by simp
  qed
qed

lemma find_map_filter:
  assumes "find Q xs = Some x" and "g x = Some y"
    and "\<And>r z. r \<in> set xs \<Longrightarrow> g r = Some z \<Longrightarrow> Q' z = Q r"
  shows "find Q' (List.map_filter g xs) = Some y"
  using assms
proof (induction xs)
  case Nil
  then show ?case by simp
next
  case (Cons a xs)
  show ?case
  proof (cases "Q a")
    case True
    then have ax: "a = x" using Cons.prems(1) by simp
    then have "Q' y" using Cons.prems(3)[of x y] Cons.prems(2) True by simp
    then show ?thesis using ax Cons.prems(2) by (simp add: List.map_filter_simps)
  next
    case False
    then have f: "find Q xs = Some x" using Cons.prems(1) by simp
    have ih: "find Q' (List.map_filter g xs) = Some y"
      using Cons.IH[OF f Cons.prems(2)] Cons.prems(3) by simp
    show ?thesis
    proof (cases "g a")
      case None
      then show ?thesis using ih by (simp add: List.map_filter_simps)
    next
      case (Some z)
      then have "\<not> Q' z" using Cons.prems(3)[of a z] False by simp
      then show ?thesis using ih Some by (simp add: List.map_filter_simps)
    qed
  qed
qed

lemma find_update_first:
  "find P xs = Some r \<Longrightarrow> P (f r) \<Longrightarrow> find P (update_first P f xs) = Some (f r)"
  by (induction xs) (auto split: if_splits)

lemma set_update_first:
  "find P xs = Some r \<Longrightarrow> set (update_first P f xs) \<subseteq> insert (f r) (set xs)"
  by (induction xs) (auto split: if_splits)

lemma find_append_new: "find P xs = None \<Longrightarrow> P r \<Longrightarrow> find P (xs @ [r]) = Some r"
  by (induction xs) (auto split: if_splits)

text \<open>What \<open>upsertLocation\<close> leaves behind.\<close>

lemma upsertLocation_row:
  assumes "upsertLocation rows0 L = (rows, loc)"
    and "lat = loc_latitude L" and "lng = loc_longitude L"
  shows "find (at_coordinate lat lng) rows = Some loc"
    and "row_name loc = loc_name L \<and> row_latitude loc = lat \<and> row_longitude loc = lng
         \<and> row_state loc = loc_state L \<and> row_stationType loc = stationType L"
    and "(\<forall>r \<in> set rows0. at_coordinate lat lng r \<longrightarrow> isActive r) \<Longrightarrow> isActive loc"
    and "set rows \<subseteq> insert loc (set rows0)"
proof -
  let ?here = "at_coordinate lat lng"
  let ?upd = "\<lambda>r. r\<lparr>row_name := loc_name L, row_state := loc_state L, row_stationType := stationType L\<rparr>"
  have keep: "\<And>r. ?here r \<Longrightarrow> ?here (?upd r)" by (simp add: at_coordinate_def)
  show "find ?here rows = Some loc"
  proof (cases "find ?here rows0")
    case None
    then show ?thesis
      using assms find_append_new[of ?here rows0 loc]
      by (auto simp: upsertLocation_def Let_def at_coordinate_def)
  next
    case (Some r)
    then have "?here r" by (auto simp: find_Some_iff)
    then show ?thesis
      using assms Some find_update_first[of ?here rows0 r ?upd] keep
      by (auto simp: upsertLocation_def Let_def)
  qed
  show "row_name loc = loc_name L \<and> row_latitude loc = lat \<and> row_longitude loc = lng
         \<and> row_state loc = loc_state L \<and> row_stationType loc = stationType L"
  proof (cases "find ?here rows0")
    case None
    then show ?thesis using assms by (auto simp: upsertLocation_def Let_def)
  next
    case (Some r)
    then have "?here r" by (auto simp: find_Some_iff)
    then show ?thesis using assms Some by (auto simp: upsertLocation_def Let_def at_coordinate_def)
  qed
  show "set rows \<subseteq> insert loc (set rows0)"
  proof (cases "find ?here rows0")
    case None
    then show ?thesis using assms by (auto simp: upsertLocation_def Let_def)
  next
    case (Some r)
    then show ?thesis
      using assms set_update_first[of ?here rows0 r ?upd] by (auto simp: upsertLocation_def Let_def)
  qed
  show "isActive loc" if act: "\<forall>r \<in> set rows0. at_coordinate lat lng r \<longrightarrow> isActive r"
  proof (cases "find ?here rows0")
    case None
    then show ?thesis using assms by (auto simp: upsertLocation_def Let_def)
  next
    case (Some r)
    then have "?here r" "r \<in> set rows0" by (auto simp: find_Some_iff)
    then have "isActive r" using act by simp
    then show ?thesis using assms Some by (auto simp: upsertLocation_def Let_def)
  qed
qed


lemma saveAQIData_result:
  assumes "saveAQIData db0 r = Inr db1"
  obtains rows loc where "upsertLocation (locations db0) (rd_location r) = (rows, loc)"
    and "reachable db1" and "locations db1 = rows"
    and "logs db1 = logs db0 @ [stored_log r (row_id loc)]"
proof -
  obtain rows loc where up: "upsertLocation (locations db0) (rd_location r) = (rows, loc)"
    by (cases "upsertLocation (locations db0) (rd_location r)") auto
  have "reachable db0" using assms by (auto simp: saveAQIData_def split: if_splits)
  then have "db1 = db0\<lparr>locations := rows, logs := logs db0 @ [stored_log r (row_id loc)]\<rparr>"
    using assms up by (simp add: saveAQIData_def stored_log_def)
  then have "reachable db1" "locations db1 = rows" "logs db1 = logs db0 @ [stored_log r (row_id loc)]"
    using \<open>reachable db0\<close> by simp_all
  then show ?thesis using that up by blast
qed

text \<open>A location the program creates is active, and no update changes that.\<close>

lemma upsertLocation_keeps_active:
  assumes "upsertLocation rows0 L = (rows, loc)" and "\<forall>r \<in> set rows0. isActive r"
  shows "\<forall>r \<in> set rows. isActive r"
proof -
  have found: "find (at_coordinate (loc_latitude L) (loc_longitude L)) rows = Some loc"
    using upsertLocation_row(1)[OF assms(1)] by simp
  have "isActive loc" using upsertLocation_row(3)[OF assms(1)] assms(2) by simp
  moreover have "set rows \<subseteq> insert loc (set rows0)"
    using upsertLocation_row(4)[OF assms(1)] by simp
  ultimately show ?thesis using assms(2) by auto
qed

lemma saveAQIData_keeps_active:
  assumes "saveAQIData db0 r = Inr db1" and "\<forall>row \<in> set (locations db0). isActive row"
  shows "\<forall>row \<in> set (locations db1). isActive row"
proof -
  from assms(1) obtain rows loc where up: "upsertLocation (locations db0) (rd_location r) = (rows, loc)"
    and db1: "locations db1 = rows"
    by (rule saveAQIData_result)
  show ?thesis unfolding db1 using upsertLocation_keeps_active[OF up assms(2)] .
qed

text \<open>
  In exact arithmetic the distance from a coordinate to itself is 0: the argument of
  \<open>acos\<close> is \<open>cos\<^sup>2 + sin\<^sup>2 = 1\<close>.
\<close>

lemma sql_distance_exact_self: "sql_distance pg_exact lat lng lat lng = Some 0"
proof -
  have "cos (lat * pi / 180) * cos (lat * pi / 180) + sin (lat * pi / 180) * sin (lat * pi / 180) = 1"
    by (rule sin_cos_squared_add3)
  then show ?thesis by (simp add: sql_distance_def pg_exact_def Let_def)
qed

text \<open>The lookup returns \<open>null\<close> as soon as the distance expression raises on a stored row.\<close>

lemma getLatestAQI_raises:
  assumes "row \<in> set (locations db)"
    and "sql_distance P lat lng (row_latitude row) (row_longitude row) = None"
  shows "getLatestAQI P db lat lng radius = None"
proof -
  have "list_ex (\<lambda>r. sql_distance P lat lng (row_latitude r) (row_longitude r) = None) (locations db)"
    using assms by (auto simp: list_ex_iff)
  then show ?thesis by (simp add: getLatestAQI_def)
qed

text \<open>
  The lookup after a save, when the distance expression evaluates on every stored row:
  the row at the coordinate has the distance \<open>d0\<close>, within the radius, and the rows at
  other coordinates a greater one; the rows at the coordinate are active (every row the
  program creates is), and the logs stored earlier for the row are older than the reading
  (the clock has advanced since).
\<close>

lemma getLatestAQI_after_save:
  assumes saved: "saveAQIData db0 r = Inr db1"
    and lat: "lat = loc_latitude (rd_location r)" and lng: "lng = loc_longitude (rd_location r)"
    and self: "sql_distance P lat lng lat lng = Some d0" and radius: "d0 \<le> radius"
    and evaluates: "\<forall>row \<in> set (locations db0).
        sql_distance P lat lng (row_latitude row) (row_longitude row) \<noteq> None"
    and others_farther: "\<forall>row \<in> set (locations db0). \<forall>d. \<not> at_coordinate lat lng row
        \<and> sql_distance P lat lng (row_latitude row) (row_longitude row) = Some d \<longrightarrow> d0 < d"
    and active: "\<forall>row \<in> set (locations db0). at_coordinate lat lng row \<longrightarrow> isActive row"
    and newest: "\<forall>l \<in> set (logs db0). \<forall>row \<in> set (locations db1).
        at_coordinate lat lng row \<and> log_locationId l = row_id row \<longrightarrow> log_timestamp l < lastUpdated (rd_aqi r)"
  shows "\<exists>loc. getLatestAQI P db1 lat lng radius = Some (stored_log r (row_id loc), loc)
           \<and> row_name loc = loc_name (rd_location r) \<and> row_latitude loc = lat \<and> row_longitude loc = lng
           \<and> row_state loc = loc_state (rd_location r) \<and> row_stationType loc = stationType (rd_location r)"
proof -
  from saved obtain rows loc where up: "upsertLocation (locations db0) (rd_location r) = (rows, loc)"
    and db1: "reachable db1" "locations db1 = rows" "logs db1 = logs db0 @ [stored_log r (row_id loc)]"
    by (rule saveAQIData_result)
  let ?here = "at_coordinate lat lng"
  let ?dist = "\<lambda>x. sql_distance P lat lng (row_latitude x) (row_longitude x)"
  let ?g = "within_radius P lat lng radius"
  let ?cands = "List.map_filter ?g rows"
  let ?here' = "\<lambda>z. ?here (snd z)"
  have found: "find ?here rows = Some loc" using upsertLocation_row(1)[OF up lat lng] .
  have fields: "row_name loc = loc_name (rd_location r) \<and> row_latitude loc = lat \<and> row_longitude loc = lng
         \<and> row_state loc = loc_state (rd_location r) \<and> row_stationType loc = stationType (rd_location r)"
    using upsertLocation_row(2)[OF up lat lng] .
  have act: "isActive loc" using upsertLocation_row(3)[OF up lat lng] active by simp
  have sub: "set rows \<subseteq> insert loc (set (locations db0))" using upsertLocation_row(4)[OF up lat lng] .
  have here_loc: "?here loc" "loc \<in> set rows" using found by (auto simp: find_Some_iff)
  have here_dist: "\<And>x. ?here x \<Longrightarrow> ?dist x = Some d0"
    using self by (simp add: at_coordinate_def)
  have g_loc: "?g loc = Some (d0, loc)"
    using here_dist[OF here_loc(1)] act radius by (simp add: within_radius_def)
  have g_snd: "\<And>x z. ?g x = Some z \<Longrightarrow> snd z = x \<and> ?dist x = Some (fst z)"
    by (auto simp: within_radius_def split: option.splits if_splits)
  have no_raise: "\<not> list_ex (\<lambda>x. ?dist x = None) rows"
  proof -
    have "\<And>x. x \<in> set rows \<Longrightarrow> ?dist x \<noteq> None"
    proof -
      fix x assume "x \<in> set rows"
      then consider "x = loc" | "x \<in> set (locations db0)" using sub by auto
      then show "?dist x \<noteq> None"
      proof cases
        case 1
        then show ?thesis using here_dist[OF here_loc(1)] by simp
      next
        case 2
        then show ?thesis using evaluates by simp
      qed
    qed
    then show ?thesis by (auto simp: list_ex_iff)
  qed
  have fc: "find ?here' ?cands = Some (d0, loc)"
  proof (rule find_map_filter[where Q = ?here and Q' = ?here' and g = ?g, OF found g_loc])
    fix x z assume "x \<in> set rows" "?g x = Some z"
    then show "?here (snd z) = ?here x" using g_snd by simp
  qed
  have in_cands: "\<And>z. z \<in> set ?cands \<Longrightarrow> \<exists>x \<in> set rows. ?g x = Some z"
    by (auto simp: List.map_filter_def)
  have c1: "\<forall>z \<in> set ?cands. ?here' z \<longrightarrow> fst z = d0"
  proof (intro ballI impI)
    fix z assume z: "z \<in> set ?cands" "?here' z"
    then obtain x where x: "x \<in> set rows" "?g x = Some z" using in_cands by blast
    then have "snd z = x" "?dist x = Some (fst z)" using g_snd by auto
    then show "fst z = d0" using here_dist[of x] z(2) by simp
  qed
  have c2: "\<forall>z \<in> set ?cands. \<not> ?here' z \<longrightarrow> d0 < fst z"
  proof (intro ballI impI)
    fix z assume z: "z \<in> set ?cands" "\<not> ?here' z"
    then obtain x where x: "x \<in> set rows" "?g x = Some z" using in_cands by blast
    then have zx: "snd z = x" "?dist x = Some (fst z)" using g_snd by auto
    then have "x \<noteq> loc" using here_loc(1) z(2) by auto
    then have "x \<in> set (locations db0)" using sub x(1) by auto
    then show "d0 < fst z" using others_farther zx z(2) by blast
  qed
  have "(d0, loc) \<in> set ?cands"
    using here_loc(2) g_loc by (auto simp: List.map_filter_def intro!: image_eqI[where x = loc])
  then have c3: "\<exists>z \<in> set ?cands. ?here' z" using here_loc(1) by force
  have nearest: "first_min fst ?cands = Some (d0, loc)"
    using first_min_find[where P = ?here' and key = fst and m = d0, OF c1 c2 c3] fc by simp
  let ?nl = "stored_log r (row_id loc)"
  let ?flt = "filter (\<lambda>l. log_locationId l = row_id loc) (logs db1)"
  have nl_id: "log_locationId ?nl = row_id loc" by (simp add: stored_log_def)
  have in_flt: "?nl \<in> set ?flt" using nl_id by (simp add: db1)
  have strict: "\<forall>y \<in> set ?flt. y \<noteq> ?nl \<longrightarrow> - log_timestamp ?nl < - log_timestamp y"
  proof (intro ballI impI)
    fix y assume y: "y \<in> set ?flt" "y \<noteq> ?nl"
    then have "y \<in> set (logs db0)" "log_locationId y = row_id loc" using nl_id by (auto simp: db1)
    moreover have "loc \<in> set (locations db1)" using here_loc(2) db1 by simp
    ultimately have "log_timestamp y < lastUpdated (rd_aqi r)" using newest here_loc(1) by blast
    then show "- log_timestamp ?nl < - log_timestamp y" by (simp add: stored_log_def)
  qed
  have latest: "first_min (\<lambda>l. - log_timestamp l) ?flt = Some ?nl"
    using first_min_strict[OF in_flt strict] .
  have "getLatestAQI P db1 lat lng radius = Some (?nl, loc)"
    using nearest latest db1 no_raise by (simp add: getLatestAQI_def)
  then show ?thesis using fields by blast
qed

lemma isDataFresh_iff: "isDataFresh now t \<longleftrightarrow> now - t \<le> 60 * 60 * 1000"
proof -
  have "(of_int (now - t) :: real) / (1000 * 60) \<le> 60 \<longleftrightarrow> (of_int (now - t) :: real) \<le> of_int (60 * 60 * 1000)"
    by (simp add: field_simps)
  also have "\<dots> \<longleftrightarrow> now - t \<le> 60 * 60 * 1000" by (simp only: of_int_le_iff)
  finally show ?thesis by (simp add: isDataFresh_def Let_def)
qed


lemma saveAQIData_succeeds: "reachable db \<Longrightarrow> \<exists>db'. saveAQIData db r = Inr db'"
  by (cases "upsertLocation (locations db) (rd_location r)") (simp add: saveAQIData_def)

lemma get_aqi_valid:
  assumes "- 90 \<le> lat" "lat \<le> 90" "- 180 \<le> lng" "lng \<le> 180" "0 < radius" "radius \<le> 100"
    and "q_lat req = QText (Some lat)" and "q_lng req = QText (Some lng)"
    and "q_radius req = QText (Some radius) \<or> q_radius req = QUndefined \<and> radius = 10"
  shows "get_aqi M P key req db now rnd =
     (let cachedData = getLatestAQI P db lat lng radius;
          hit = (case cachedData of None \<Rightarrow> False | Some c \<Rightarrow> isDataFresh now (log_timestamp (fst c)))
      in if hit
         then (\<lparr>http_status = 200, success = True,
                payload = map_option formatCachedAQIResponse cachedData,
                message = ''AQI data retrieved from cache'',
                meta_source = Some ''cache'',
                meta_dataAge = map_option (\<lambda>c. getDataAge now (log_timestamp (fst c))) cachedData,
                meta_isRealData = None\<rparr>,
               db, [CacheLookup])
         else
           (let freshData = AQIService_fetchRealTimeAQI M key lat lng radius now rnd;
                db' = (case saveAQIData db freshData of Inl e \<Rightarrow> db | Inr saved \<Rightarrow> saved)
            in (\<lparr>http_status = 200, success = True,
                 payload = Some \<lparr>pl_location = rd_location freshData,
                                 pl_aqi = categorizeAQI (aqi_value (rd_aqi freshData)),
                                 pl_lastUpdated = lastUpdated (rd_aqi freshData),
                                 pl_pollutants = rd_pollutants freshData,
                                 pl_source = source freshData\<rparr>,
                 message = ''AQI data retrieved successfully'',
                 meta_source = Some ''external_api'',
                 meta_dataAge = None,
                 meta_isRealData = Some (isRealData freshData)\<rparr>,
                db', [CacheLookup, ProviderCall, DbSave])))"
  using assms by (auto simp: get_aqi_def falsy_param_def parseFloat_def not_less not_le)


text \<open>
  The round trip, where the lookup evaluates (hypotheses as in the lemma above). A
  request for the coordinate of the saved reading \<open>r\<close>, with any valid radius the
  distance \<open>d0\<close> is within, at a time when \<open>r\<close> is at most 60 minutes old, is answered
  from the cache with the values of \<open>r\<close>, the only call being the cache lookup, and the
  database is not touched. When \<open>r\<close> is more than 60 minutes old the lookup counts as a
  miss: the provider is called and its reading is answered and saved, after the logs
  already stored, none of which is removed.
\<close>

lemma round_trip_when_lookup_evaluates:
  assumes saved: "saveAQIData db0 r = Inr db1"
    and lat: "lat = loc_latitude (rd_location r)" and lng: "lng = loc_longitude (rd_location r)"
    and range: "- 90 \<le> lat" "lat \<le> 90" "- 180 \<le> lng" "lng \<le> 180" "0 < radius" "radius \<le> 100"
    and req: "q_lat req = QText (Some lat)" "q_lng req = QText (Some lng)"
      "q_radius req = QText (Some radius) \<or> q_radius req = QUndefined \<and> radius = 10"
    and self: "sql_distance P lat lng lat lng = Some d0" and within: "d0 \<le> radius"
    and evaluates: "\<forall>row \<in> set (locations db0).
        sql_distance P lat lng (row_latitude row) (row_longitude row) \<noteq> None"
    and others_farther: "\<forall>row \<in> set (locations db0). \<forall>d. \<not> at_coordinate lat lng row
        \<and> sql_distance P lat lng (row_latitude row) (row_longitude row) = Some d \<longrightarrow> d0 < d"
    and active: "\<forall>row \<in> set (locations db0). at_coordinate lat lng row \<longrightarrow> isActive row"
    and newest: "\<forall>l \<in> set (logs db0). \<forall>row \<in> set (locations db1).
        at_coordinate lat lng row \<and> log_locationId l = row_id row \<longrightarrow> log_timestamp l < lastUpdated (rd_aqi r)"
  shows
   "(now - lastUpdated (rd_aqi r) \<le> 60 * 60 * 1000 \<longrightarrow>
       http_status (fst (get_aqi M P key req db1 now rnd)) = 200
       \<and> meta_source (fst (get_aqi M P key req db1 now rnd)) = Some ''cache''
       \<and> payload (fst (get_aqi M P key req db1 now rnd)) =
           Some \<lparr>pl_location = (rd_location r)\<lparr>loc_country := None\<rparr>,
                 pl_aqi = categorizeAQI (aqi_value (rd_aqi r)),
                 pl_lastUpdated = lastUpdated (rd_aqi r),
                 pl_pollutants = (rd_pollutants r)\<lparr>r_nh3 := None\<rparr>,
                 pl_source = source r\<rparr>
       \<and> snd (get_aqi M P key req db1 now rnd) = (db1, [CacheLookup]))
  \<and> (now - lastUpdated (rd_aqi r) > 60 * 60 * 1000 \<longrightarrow>
       http_status (fst (get_aqi M P key req db1 now rnd)) = 200
       \<and> meta_source (fst (get_aqi M P key req db1 now rnd)) = Some ''external_api''
       \<and> map_option pl_source (payload (fst (get_aqi M P key req db1 now rnd))) = Some ''Mock-CPCB''
       \<and> map_option pl_lastUpdated (payload (fst (get_aqi M P key req db1 now rnd))) = Some now
       \<and> snd (snd (get_aqi M P key req db1 now rnd)) = [CacheLookup, ProviderCall, DbSave]
       \<and> take (length (logs db1)) (logs (fst (snd (get_aqi M P key req db1 now rnd)))) = logs db1
       \<and> length (logs (fst (snd (get_aqi M P key req db1 now rnd)))) = Suc (length (logs db1)))"
proof -
  obtain loc where look: "getLatestAQI P db1 lat lng radius = Some (stored_log r (row_id loc), loc)"
    and fields: "row_name loc = loc_name (rd_location r)" "row_latitude loc = lat" "row_longitude loc = lng"
      "row_state loc = loc_state (rd_location r)" "row_stationType loc = stationType (rd_location r)"
    using getLatestAQI_after_save[OF saved lat lng self within evaluates others_farther active newest]
    by blast
  have ts: "log_timestamp (stored_log r (row_id loc)) = lastUpdated (rd_aqi r)"
    by (simp add: stored_log_def)
  have cached: "formatCachedAQIResponse (stored_log r (row_id loc), loc) =
           \<lparr>pl_location = (rd_location r)\<lparr>loc_country := None\<rparr>,
            pl_aqi = categorizeAQI (aqi_value (rd_aqi r)),
            pl_lastUpdated = lastUpdated (rd_aqi r),
            pl_pollutants = (rd_pollutants r)\<lparr>r_nh3 := None\<rparr>,
            pl_source = source r\<rparr>"
    using fields lat lng by (cases "rd_location r") (simp add: formatCachedAQIResponse_def stored_log_def)
  note eq = get_aqi_valid[OF range req, where M = M and P = P and key = key and db = db1
      and now = now and rnd = rnd]
  have hit: "now - lastUpdated (rd_aqi r) \<le> 60 * 60 * 1000 \<Longrightarrow>
       http_status (fst (get_aqi M P key req db1 now rnd)) = 200
       \<and> meta_source (fst (get_aqi M P key req db1 now rnd)) = Some ''cache''
       \<and> payload (fst (get_aqi M P key req db1 now rnd)) =
           Some \<lparr>pl_location = (rd_location r)\<lparr>loc_country := None\<rparr>,
                 pl_aqi = categorizeAQI (aqi_value (rd_aqi r)),
                 pl_lastUpdated = lastUpdated (rd_aqi r),
                 pl_pollutants = (rd_pollutants r)\<lparr>r_nh3 := None\<rparr>,
                 pl_source = source r\<rparr>
       \<and> snd (get_aqi M P key req db1 now rnd) = (db1, [CacheLookup])"
    unfolding eq look using cached ts by (simp add: isDataFresh_iff)
  obtain rows loc' where db1: "reachable db1" by (rule saveAQIData_result[OF saved])
  let ?fresh = "AQIService_fetchRealTimeAQI M key lat lng radius now rnd"
  have fresh: "source ?fresh = ''Mock-CPCB''" "lastUpdated (rd_aqi ?fresh) = now"
    by (simp_all add: AQIService_fetchRealTimeAQI_def AQIService_getMockAQIData_def Let_def)
  obtain db2 where s2: "saveAQIData db1 ?fresh = Inr db2"
    using saveAQIData_succeeds[OF db1] by blast
  then obtain i where logs2: "logs db2 = logs db1 @ [stored_log ?fresh i]"
    by (rule saveAQIData_result) blast
  have miss: "now - lastUpdated (rd_aqi r) > 60 * 60 * 1000 \<Longrightarrow>
       http_status (fst (get_aqi M P key req db1 now rnd)) = 200
       \<and> meta_source (fst (get_aqi M P key req db1 now rnd)) = Some ''external_api''
       \<and> map_option pl_source (payload (fst (get_aqi M P key req db1 now rnd))) = Some ''Mock-CPCB''
       \<and> map_option pl_lastUpdated (payload (fst (get_aqi M P key req db1 now rnd))) = Some now
       \<and> snd (snd (get_aqi M P key req db1 now rnd)) = [CacheLookup, ProviderCall, DbSave]
       \<and> take (length (logs db1)) (logs (fst (snd (get_aqi M P key req db1 now rnd)))) = logs db1
       \<and> length (logs (fst (snd (get_aqi M P key req db1 now rnd)))) = Suc (length (logs db1))"
    unfolding eq look using ts fresh s2 logs2 by (simp add: isDataFresh_iff Let_def)
  show ?thesis using hit miss by blast
qed

text \<open>
  The round trip at New Delhi in exact arithmetic: a hit five minutes and sixty minutes
  after the reading, a miss one millisecond later, with the earlier logs kept.
\<close>

lemma round_trip_new_delhi:
  "saveAQIData db_before sample_reading = Inr db_after
   \<and> meta_source (fst (get_aqi js_exact pg_exact None req_delhi db_after (1700000000000 + 5 * 60 * 1000) (\<lambda>k. 0)))
       = Some ''cache''
   \<and> snd (get_aqi js_exact pg_exact None req_delhi db_after (1700000000000 + 5 * 60 * 1000) (\<lambda>k. 0))
       = (db_after, [CacheLookup])
   \<and> map_option pl_lastUpdated
        (payload (fst (get_aqi js_exact pg_exact None req_delhi db_after (1700000000000 + 5 * 60 * 1000) (\<lambda>k. 0))))
       = Some 1700000000000
   \<and> snd (get_aqi js_exact pg_exact None req_delhi db_after (1700000000000 + 60 * 60 * 1000) (\<lambda>k. 0))
       = (db_after, [CacheLookup])
   \<and> snd (snd (get_aqi js_exact pg_exact None req_delhi db_after (1700000000000 + 60 * 60 * 1000 + 1) (\<lambda>k. 0)))
       = [CacheLookup, ProviderCall, DbSave]
   \<and> length (logs (fst (snd (get_aqi js_exact pg_exact None req_delhi db_after
        (1700000000000 + 60 * 60 * 1000 + 1) (\<lambda>k. 0))))) = 3"
proof -
  have saved: "saveAQIData db_before sample_reading = Inr db_after"
    by (simp add: saveAQIData_def upsertLocation_def db_before_def db_after_def sample_reading_def
        delhi_row_def stored_log_def at_coordinate_def)
  have lat: "28.6139 = loc_latitude (rd_location sample_reading)"
    and lng: "77.2090 = loc_longitude (rd_location sample_reading)"
    by (simp_all add: sample_reading_def)
  have range: "- 90 \<le> (28.6139::real)" "(28.6139::real) \<le> 90" "- 180 \<le> (77.2090::real)"
    "(77.2090::real) \<le> 180" "0 < (10::real)" "(10::real) \<le> 100"
    by simp_all
  have req: "q_lat req_delhi = QText (Some 28.6139)" "q_lng req_delhi = QText (Some 77.2090)"
    "q_radius req_delhi = QText (Some 10) \<or> q_radius req_delhi = QUndefined \<and> (10::real) = 10"
    by (simp_all add: req_delhi_def)
  have self: "sql_distance pg_exact 28.6139 77.2090 28.6139 77.2090 = Some 0"
    by (rule sql_distance_exact_self)
  have within: "(0::real) \<le> 10" by simp
  have evaluates: "\<forall>row \<in> set (locations db_before).
      sql_distance pg_exact 28.6139 77.2090 (row_latitude row) (row_longitude row) \<noteq> None"
    using self by (simp add: db_before_def delhi_row_def)
  have farther: "\<forall>row \<in> set (locations db_before). \<forall>d. \<not> at_coordinate 28.6139 77.2090 row
      \<and> sql_distance pg_exact 28.6139 77.2090 (row_latitude row) (row_longitude row) = Some d \<longrightarrow> 0 < d"
    by (simp add: db_before_def delhi_row_def at_coordinate_def)
  have active: "\<forall>row \<in> set (locations db_before). at_coordinate 28.6139 77.2090 row \<longrightarrow> isActive row"
    by (simp add: db_before_def delhi_row_def)
  have newest: "\<forall>l \<in> set (logs db_before). \<forall>row \<in> set (locations db_after).
      at_coordinate 28.6139 77.2090 row \<and> log_locationId l = row_id row
        \<longrightarrow> log_timestamp l < lastUpdated (rd_aqi sample_reading)"
    by (simp add: db_before_def db_after_def old_log_def sample_reading_def)
  have ts: "lastUpdated (rd_aqi sample_reading) = 1700000000000" by (simp add: sample_reading_def)
  note rt = round_trip_when_lookup_evaluates[OF saved lat lng range req self within evaluates farther
      active newest, where M = js_exact and key = None and rnd = "\<lambda>k. 0"]
  have a: "(1700000000000 + 5 * 60 * 1000) - lastUpdated (rd_aqi sample_reading) \<le> (60 * 60 * 1000 :: int)"
    and b: "(1700000000000 + 60 * 60 * 1000) - lastUpdated (rd_aqi sample_reading) \<le> (60 * 60 * 1000 :: int)"
    and c: "(1700000000000 + 60 * 60 * 1000 + 1) - lastUpdated (rd_aqi sample_reading) > (60 * 60 * 1000 :: int)"
    by (simp_all add: ts)
  have len: "length (logs db_after) = 2" by (simp add: db_after_def)
  show ?thesis
    using saved rt[where now = "1700000000000 + 5 * 60 * 1000"] rt[where now = "1700000000000 + 60 * 60 * 1000"]
      rt[where now = "1700000000000 + 60 * 60 * 1000 + 1"] a b c
    by (simp add: ts len)
qed

section \<open>The cache where the distance query raises\<close>

text \<open>
  The distance expression raises when the runtime's operations, one after the other, give
  \<open>acos\<close> an argument above 1.
\<close>

lemma sql_distance_raises:
  assumes "pg_radians P lat = rlat" and "pg_radians P latitude = rlatitude"
    and "pg_radians P lng = rlng" and "pg_radians P longitude = rlongitude"
    and "pg_cos P rlat = ca" and "pg_cos P rlatitude = cb" and "pg_fl P (ca * cb) = cc"
    and "pg_fl P (rlongitude - rlng) = dl" and "pg_cos P dl = cd" and "pg_fl P (cc * cd) = ccd"
    and "pg_sin P rlat = sa" and "pg_sin P rlatitude = sb" and "pg_fl P (sa * sb) = ss"
    and "pg_fl P (ccd + ss) = x" and "1 < x"
  shows "sql_distance P lat lng latitude longitude = None"
  using assms by (simp add: sql_distance_def Let_def)

text \<open>
  Claim C5, at inputs where it fails. A reading is saved for a coordinate at which the
  distance expression of the lookup, from the coordinate to itself, raises: the cosine
  and the sine of the latitude are doubles whose squares add up to a double above 1.
  Every later request for the coordinate then finds no cached reading, however recent the
  stored one is: the lookup returns \<open>null\<close>, the provider is called again and one more
  log is stored. It is so at latitude 12 and longitude 77.
\<close>

theorem cache_lookup_raises_at_stored_coordinate:
  assumes saved: "saveAQIData db0 r = Inr db1"
    and lat: "lat = loc_latitude (rd_location r)" and lng: "lng = loc_longitude (rd_location r)"
    and range: "- 90 \<le> lat" "lat \<le> 90" "- 180 \<le> lng" "lng \<le> 180" "0 < radius" "radius \<le> 100"
    and req: "q_lat req = QText (Some lat)" "q_lng req = QText (Some lng)"
      "q_radius req = QText (Some radius) \<or> q_radius req = QUndefined \<and> radius = 10"
    and raises: "sql_distance P lat lng lat lng = None"
  shows "getLatestAQI P db1 lat lng radius = None
       \<and> meta_source (fst (get_aqi M P key req db1 now rnd)) = Some ''external_api''
       \<and> snd (snd (get_aqi M P key req db1 now rnd)) = [CacheLookup, ProviderCall, DbSave]
       \<and> length (logs (fst (snd (get_aqi M P key req db1 now rnd)))) = Suc (length (logs db1))"
proof -
  from saved obtain rows loc where up: "upsertLocation (locations db0) (rd_location r) = (rows, loc)"
    and db1: "reachable db1" "locations db1 = rows"
    by (rule saveAQIData_result)
  have found: "find (at_coordinate lat lng) rows = Some loc" using upsertLocation_row(1)[OF up lat lng] .
  then have loc: "loc \<in> set (locations db1)" "row_latitude loc = lat" "row_longitude loc = lng"
    using db1 by (auto simp: find_Some_iff at_coordinate_def)
  have look: "getLatestAQI P db1 lat lng radius = None"
    using getLatestAQI_raises[OF loc(1)] raises loc(2,3) by simp
  note eq = get_aqi_valid[OF range req, where M = M and P = P and key = key and db = db1
      and now = now and rnd = rnd]
  let ?fresh = "AQIService_fetchRealTimeAQI M key lat lng radius now rnd"
  obtain db2 where s2: "saveAQIData db1 ?fresh = Inr db2"
    using saveAQIData_succeeds[OF db1(1)] by blast
  then obtain i where logs2: "logs db2 = logs db1 @ [stored_log ?fresh i]"
    by (rule saveAQIData_result) blast
  have "meta_source (fst (get_aqi M P key req db1 now rnd)) = Some ''external_api''
       \<and> snd (snd (get_aqi M P key req db1 now rnd)) = [CacheLookup, ProviderCall, DbSave]
       \<and> length (logs (fst (snd (get_aqi M P key req db1 now rnd)))) = Suc (length (logs db1))"
    unfolding eq look using s2 logs2 by (simp add: Let_def)
  then show ?thesis using look by simp
qed

theorem cache_lookup_raises_at_stored_coordinate_witness:
  "sql_distance pg_at_12_77 12 77 12 77 = None
   \<and> snd (snd (get_aqi js_exact pg_at_12_77 None req_12_77 empty_db 1700000000000 (\<lambda>k. 0)))
       = [CacheLookup, ProviderCall, DbSave]
   \<and> snd (snd (get_aqi js_exact pg_at_12_77 None req_12_77
         (fst (snd (get_aqi js_exact pg_at_12_77 None req_12_77 empty_db 1700000000000 (\<lambda>k. 0))))
         (1700000000000 + 5 * 60 * 1000) (\<lambda>k. 0)))
       = [CacheLookup, ProviderCall, DbSave]
   \<and> length (logs (fst (snd (get_aqi js_exact pg_at_12_77 None req_12_77
         (fst (snd (get_aqi js_exact pg_at_12_77 None req_12_77 empty_db 1700000000000 (\<lambda>k. 0))))
         (1700000000000 + 5 * 60 * 1000) (\<lambda>k. 0))))) = 2"
proof -
  have raises: "sql_distance pg_at_12_77 12 77 12 77 = None"
    by (rule sql_distance_raises[where rlat = "0.20943951023931956" and rlatitude = "0.20943951023931956"
          and rlng = "1.3439035240356338" and rlongitude = "1.3439035240356338"
          and ca = "0.9781476007338057" and cb = "0.9781476007338057" and cc = "0.9567727288213006"
          and dl = 0 and cd = 1 and ccd = "0.9567727288213006"
          and sa = "0.20791169081775934" and sb = "0.20791169081775934" and ss = "0.04322727117869955"
          and x = "1.0000000000000002"])
      (simp_all add: pg_at_12_77_def)
  have range: "- 90 \<le> (12::real)" "(12::real) \<le> 90" "- 180 \<le> (77::real)"
    "(77::real) \<le> 180" "0 < (10::real)" "(10::real) \<le> 100"
    by simp_all
  have req: "q_lat req_12_77 = QText (Some 12)" "q_lng req_12_77 = QText (Some 77)"
    "q_radius req_12_77 = QText (Some 10) \<or> q_radius req_12_77 = QUndefined \<and> (10::real) = 10"
    by (simp_all add: req_12_77_def)
  let ?r = "AQIService_fetchRealTimeAQI js_exact None 12 77 10 1700000000000 (\<lambda>k. 0)"
  have at: "12 = loc_latitude (rd_location ?r)" "77 = loc_longitude (rd_location ?r)"
    by (simp_all add: AQIService_fetchRealTimeAQI_def AQIService_getMockAQIData_def Let_def)
  have empty: "reachable empty_db" "getLatestAQI pg_at_12_77 empty_db 12 77 10 = None"
    "logs empty_db = []"
    by (simp_all add: empty_db_def getLatestAQI_def List.map_filter_simps)
  obtain db1 where saved: "saveAQIData empty_db ?r = Inr db1"
    using saveAQIData_succeeds[OF empty(1)] by blast
  then obtain i where logs1: "logs db1 = logs empty_db @ [stored_log ?r i]"
    by (rule saveAQIData_result) blast
  have first: "fst (snd (get_aqi js_exact pg_at_12_77 None req_12_77 empty_db 1700000000000 (\<lambda>k. 0))) = db1"
    "snd (snd (get_aqi js_exact pg_at_12_77 None req_12_77 empty_db 1700000000000 (\<lambda>k. 0)))
       = [CacheLookup, ProviderCall, DbSave]"
    unfolding get_aqi_valid[OF range req] empty(2) using saved by (simp_all add: Let_def)
  have len: "length (logs db1) = 1" using logs1 empty(3) by simp
  show ?thesis
    unfolding first
    using raises first(2) len
      cache_lookup_raises_at_stored_coordinate[OF saved at range req raises,
        where M = js_exact and key = None and now = "1700000000000 + 5 * 60 * 1000" and rnd = "\<lambda>k. 0"]
    by simp
qed

end
